theory Spec2Isabelle
  imports Complex_Main "HOL-Library.Word" "HOL-Library.Log_Nat"
begin

unbundle bit_operations_syntax

section \<open>Windows API values used by the capture engine\<close>

text \<open>
  An \<open>HRESULT\<close> is a signed 32-bit code; the SDK macro \<open>FAILED(hr)\<close> tests its sign.
  The two codes the source compares against carry their SDK values.
\<close>

type_synonym HRESULT = "32 word"

definition FAILED :: "HRESULT \<Rightarrow> bool" where
  "FAILED hr = (sint hr < 0)"

definition S_OK :: HRESULT where
  "S_OK = 0"

definition E_FAIL :: HRESULT where
  "E_FAIL = 0x80004005"

definition RPC_E_CHANGED_MODE :: HRESULT where
  "RPC_E_CHANGED_MODE = 0x80010106"

definition AUDCLNT_E_BUFFER_ERROR :: HRESULT where
  "AUDCLNT_E_BUFFER_ERROR = 0x88890018"

definition WAVE_FORMAT_PCM :: "16 word" where
  "WAVE_FORMAT_PCM = 1"

definition WAVE_FORMAT_IEEE_FLOAT :: "16 word" where
  "WAVE_FORMAT_IEEE_FLOAT = 3"

definition AUDCLNT_BUFFERFLAGS_SILENT :: "32 word" where
  "AUDCLNT_BUFFERFLAGS_SILENT = 2"

record WAVEFORMATEX =
  wFormatTag :: "16 word"
  nChannels :: "16 word"
  nSamplesPerSec :: "32 word"
  nAvgBytesPerSec :: "32 word"
  nBlockAlign :: "16 word"
  wBitsPerSample :: "16 word"
  cbSize :: "16 word"

section \<open>Shared value types\<close>

text \<open>
  Modelled from the spec: \<open>common/audio-format.h\<close> is not among the sources. The
  Format Descriptor is \<open>{sampleRate, channelCount}\<close>; \<open>samplesPerFrame()\<close> is the number
  of interleaved samples of one frame, the channel count. The cast of \<open>nChannels\<close> to
  \<open>common::ChannelCount\<close> is taken to preserve the value.
\<close>

record AudioFormat =
  sampleRate :: nat
  channelCount :: nat

definition samplesPerFrame :: "AudioFormat \<Rightarrow> nat" where
  "samplesPerFrame f = channelCount f"

text \<open>A 32-bit IEEE-754 float is held as its bit pattern, as memory holds it.\<close>

type_synonym float32 = "32 word"

text \<open>
  An \<open>IAudioDataCallback*\<close> is \<open>None\<close> for \<open>nullptr\<close>, otherwise the identity of the
  object pointed to: the engine's own \<open>m_meteringCallback\<close> member or an observer of
  the application.
\<close>

datatype callback_id = MeteringCallbackObj | ExternalCallback nat

type_synonym callback_ptr = "callback_id option"

section \<open>WasapiCapture: state\<close>

text \<open>
  A COM interface pointer or a handle is \<open>True\<close> when non-null. The audio client and
  the stop event carry the state of the object behind the pointer: whether the device
  stream runs, and whether the manual-reset event is signalled.
\<close>

datatype stream_state = StreamStopped | StreamRunning

record WasapiCapture =
  m_deviceEnumerator :: bool
  m_device :: bool
  m_audioClient :: "stream_state option"
  m_captureClient :: bool
  m_waveFormat :: "WAVEFORMATEX option"
  m_format :: AudioFormat
  m_capturing :: bool
  m_captureThread :: bool
  m_stopEvent :: "bool option"
  m_callbacks :: "callback_ptr list"
  m_floatBuffer :: "float32 list"
  m_comInitialized :: bool

text \<open>The member initialisers of the class declaration.\<close>

definition WasapiCapture_new :: WasapiCapture where
  "WasapiCapture_new =
     \<lparr>m_deviceEnumerator = False, m_device = False, m_audioClient = None,
      m_captureClient = False, m_waveFormat = None,
      m_format = \<lparr>sampleRate = 0, channelCount = 0\<rparr>,
      m_capturing = False, m_captureThread = False, m_stopEvent = None,
      m_callbacks = [], m_floatBuffer = [], m_comInitialized = False\<rparr>"

section \<open>WasapiCapture: release helpers\<close>

definition releaseAudioClient :: "WasapiCapture \<Rightarrow> WasapiCapture" where
  "releaseAudioClient c =
     (let c = (if m_captureClient c then c\<lparr>m_captureClient := False\<rparr> else c);
          c = (if m_audioClient c \<noteq> None then c\<lparr>m_audioClient := None\<rparr> else c);
          c = (if m_device c then c\<lparr>m_device := False\<rparr> else c);
          c = (if m_deviceEnumerator c then c\<lparr>m_deviceEnumerator := False\<rparr> else c);
          c = (if m_waveFormat c \<noteq> None then c\<lparr>m_waveFormat := None\<rparr> else c)
      in c)"

definition releaseCom :: "WasapiCapture \<Rightarrow> WasapiCapture" where
  "releaseCom c = (if m_comInitialized c then c\<lparr>m_comInitialized := False\<rparr> else c)"

section \<open>WasapiCapture: initialize\<close>

text \<open>
  What the operating system answers to each call of \<open>initialize()\<close>, in call order.
  An out-parameter is non-null exactly when its call succeeds.
\<close>

record InitEnv =
  CoInitializeEx_hr :: HRESULT
  CoCreateInstance_hr :: HRESULT
  GetDefaultAudioEndpoint_hr :: HRESULT
  Activate_hr :: HRESULT
  GetMixFormat_hr :: HRESULT
  GetMixFormat_format :: WAVEFORMATEX
  Initialize_hr :: HRESULT
  GetService_hr :: HRESULT
  CreateEvent_ok :: bool

definition WasapiCapture_initialize :: "InitEnv \<Rightarrow> WasapiCapture \<Rightarrow> bool \<times> WasapiCapture" where
  "WasapiCapture_initialize env c0 =
     (if m_comInitialized c0 then (True, c0)
      else if FAILED (CoInitializeEx_hr env) \<and> CoInitializeEx_hr env \<noteq> RPC_E_CHANGED_MODE
      then (False, c0)
      else
        let c1 = c0\<lparr>m_comInitialized := True,
                    m_deviceEnumerator := \<not> FAILED (CoCreateInstance_hr env)\<rparr>
        in if FAILED (CoCreateInstance_hr env) then (False, releaseCom c1)
        else
          let c2 = c1\<lparr>m_device := \<not> FAILED (GetDefaultAudioEndpoint_hr env)\<rparr>
          in if FAILED (GetDefaultAudioEndpoint_hr env) then (False, releaseCom c2)
          else
            let c3 = c2\<lparr>m_audioClient :=
                          (if FAILED (Activate_hr env) then None else Some StreamStopped)\<rparr>
            in if FAILED (Activate_hr env) then (False, releaseCom c3)
            else
              let c4 = c3\<lparr>m_waveFormat :=
                            (if FAILED (GetMixFormat_hr env) then None
                             else Some (GetMixFormat_format env))\<rparr>;
                  wfx = GetMixFormat_format env
              in if FAILED (GetMixFormat_hr env) then (False, releaseCom c4)
              else if wFormatTag wfx \<noteq> WAVE_FORMAT_PCM \<and> wFormatTag wfx \<noteq> WAVE_FORMAT_IEEE_FLOAT
              then (False, releaseCom (c4\<lparr>m_waveFormat := None\<rparr>))
              else
                let c5 = c4\<lparr>m_format := \<lparr>sampleRate = unat (nSamplesPerSec wfx),
                                            channelCount = unat (nChannels wfx)\<rparr>\<rparr>
                in if channelCount (m_format c5) < 1 \<or> channelCount (m_format c5) > 2
                then (False, releaseCom (c5\<lparr>m_waveFormat := None\<rparr>))
                else if FAILED (Initialize_hr env)
                then (False, releaseCom (c5\<lparr>m_waveFormat := None\<rparr>))
                else
                  let c6 = c5\<lparr>m_captureClient := \<not> FAILED (GetService_hr env)\<rparr>
                  in if FAILED (GetService_hr env) then (False, releaseCom c6)
                  else
                    let c7 = c6\<lparr>m_stopEvent :=
                                  (if CreateEvent_ok env then Some False else None)\<rparr>
                    in if m_stopEvent c7 = None then (False, releaseCom c7)
                    else (True, c7))"

section \<open>WasapiCapture: start, stop, shutdown\<close>

record StartEnv =
  Start_hr :: HRESULT
  CreateThread_ok :: bool

definition WasapiCapture_start :: "StartEnv \<Rightarrow> WasapiCapture \<Rightarrow> bool \<times> WasapiCapture" where
  "WasapiCapture_start env c0 =
     (if m_capturing c0 then (True, c0)
      else if m_audioClient c0 = None \<or> \<not> m_captureClient c0 then (False, c0)
      else
        let c1 = (if m_stopEvent c0 \<noteq> None then c0\<lparr>m_stopEvent := Some False\<rparr> else c0)
        in if FAILED (Start_hr env) then (False, c1)
        else
          let c2 = c1\<lparr>m_audioClient := Some StreamRunning, m_capturing := True,
                      m_captureThread := CreateThread_ok env\<rparr>
          in if \<not> m_captureThread c2
             then (False, c2\<lparr>m_audioClient := Some StreamStopped, m_capturing := False\<rparr>)
             else (True, c2))"

text \<open>
  In \<open>stop()\<close> the wait for the capture thread returns once the thread has left its
  loop, which it does on the cleared flag; the handle is then closed.
\<close>

definition WasapiCapture_stop :: "WasapiCapture \<Rightarrow> WasapiCapture" where
  "WasapiCapture_stop c0 =
     (if \<not> m_capturing c0 then c0
      else
        let c1 = c0\<lparr>m_capturing := False\<rparr>;
            c2 = (if m_stopEvent c1 \<noteq> None then c1\<lparr>m_stopEvent := Some True\<rparr> else c1);
            c3 = (if m_audioClient c2 \<noteq> None then c2\<lparr>m_audioClient := Some StreamStopped\<rparr>
                  else c2);
            c4 = (if m_captureThread c3 then c3\<lparr>m_captureThread := False\<rparr> else c3)
        in c4)"

definition WasapiCapture_shutdown :: "WasapiCapture \<Rightarrow> WasapiCapture" where
  "WasapiCapture_shutdown c0 =
     (let c1 = WasapiCapture_stop c0;
          c2 = releaseAudioClient c1;
          c3 = releaseCom c2
      in if m_stopEvent c3 \<noteq> None then c3\<lparr>m_stopEvent := None\<rparr> else c3)"

definition WasapiCapture_isCapturing :: "WasapiCapture \<Rightarrow> bool" where
  "WasapiCapture_isCapturing c = m_capturing c"

section \<open>Callback registration\<close>

text \<open>\<open>std::remove\<close> followed by \<open>erase\<close> deletes every element equal to the argument.\<close>

definition WasapiCapture_registerCallback :: "callback_ptr \<Rightarrow> WasapiCapture \<Rightarrow> WasapiCapture" where
  "WasapiCapture_registerCallback callback c =
     (if callback = None then c else c\<lparr>m_callbacks := m_callbacks c @ [callback]\<rparr>)"

definition WasapiCapture_unregisterCallback :: "callback_ptr \<Rightarrow> WasapiCapture \<Rightarrow> WasapiCapture" where
  "WasapiCapture_unregisterCallback callback c =
     (if callback = None then c else c\<lparr>m_callbacks := removeAll callback (m_callbacks c)\<rparr>)"

section \<open>AudioEngine: the facade\<close>

record AudioEngine =
  m_capture :: WasapiCapture
  m_callbacks_engine :: "callback_ptr list"

definition AudioEngine_new :: AudioEngine where
  "AudioEngine_new = \<lparr>m_capture = WasapiCapture_new, m_callbacks_engine = []\<rparr>"

definition AudioEngine_initialize :: "InitEnv \<Rightarrow> AudioEngine \<Rightarrow> bool \<times> AudioEngine" where
  "AudioEngine_initialize env e =
     (case WasapiCapture_initialize env (m_capture e) of
        (ok, cap) \<Rightarrow>
          if \<not> ok then (False, e\<lparr>m_capture := cap\<rparr>)
          else (True, e\<lparr>m_capture := WasapiCapture_registerCallback (Some MeteringCallbackObj) cap\<rparr>))"

definition AudioEngine_start :: "StartEnv \<Rightarrow> AudioEngine \<Rightarrow> bool \<times> AudioEngine" where
  "AudioEngine_start env e =
     (case WasapiCapture_start env (m_capture e) of (ok, cap) \<Rightarrow> (ok, e\<lparr>m_capture := cap\<rparr>))"

definition AudioEngine_stop :: "AudioEngine \<Rightarrow> AudioEngine" where
  "AudioEngine_stop e = e\<lparr>m_capture := WasapiCapture_stop (m_capture e)\<rparr>"

definition AudioEngine_shutdown :: "AudioEngine \<Rightarrow> AudioEngine" where
  "AudioEngine_shutdown e0 =
     (let e1 = AudioEngine_stop e0;
          e2 = e1\<lparr>m_capture :=
                  WasapiCapture_unregisterCallback (Some MeteringCallbackObj) (m_capture e1)\<rparr>;
          e3 = e2\<lparr>m_callbacks_engine := []\<rparr>
      in e3\<lparr>m_capture := WasapiCapture_shutdown (m_capture e3)\<rparr>)"

definition AudioEngine_registerCallback :: "callback_ptr \<Rightarrow> AudioEngine \<Rightarrow> AudioEngine" where
  "AudioEngine_registerCallback callback e =
     (if callback = None then e
      else e\<lparr>m_callbacks_engine := m_callbacks_engine e @ [callback]\<rparr>)"

definition AudioEngine_unregisterCallback :: "callback_ptr \<Rightarrow> AudioEngine \<Rightarrow> AudioEngine" where
  "AudioEngine_unregisterCallback callback e =
     (if callback = None then e
      else e\<lparr>m_callbacks_engine := removeAll callback (m_callbacks_engine e)\<rparr>)"

definition AudioEngine_isCapturing :: "AudioEngine \<Rightarrow> bool" where
  "AudioEngine_isCapturing e = WasapiCapture_isCapturing (m_capture e)"

definition AudioEngine_getFormat :: "AudioEngine \<Rightarrow> AudioFormat" where
  "AudioEngine_getFormat e = m_format (m_capture e)"

section \<open>IEEE-754 binary32 arithmetic, as far as the converter uses it\<close>

text \<open>
  The fields of a bit pattern: sign (bit 31), biased exponent (bits 30..23) and
  fraction (bits 22..0). A finite pattern denotes
  \<open>\<plusminus> significand * 2 ^ scale\<close>; the same formula is kept for exponent 255.
\<close>

definition f32_sign :: "float32 \<Rightarrow> bool" where
  "f32_sign w = (unat w div 2 ^ 31 = 1)"

definition f32_exponent :: "float32 \<Rightarrow> nat" where
  "f32_exponent w = unat w div 2 ^ 23 mod 256"

definition f32_fraction :: "float32 \<Rightarrow> nat" where
  "f32_fraction w = unat w mod 2 ^ 23"

definition f32_significand :: "float32 \<Rightarrow> nat" where
  "f32_significand w =
     (if f32_exponent w = 0 then f32_fraction w else 2 ^ 23 + f32_fraction w)"

definition f32_scale :: "float32 \<Rightarrow> int" where
  "f32_scale w = (if f32_exponent w = 0 then - 149 else int (f32_exponent w) - 150)"

definition f32_value :: "float32 \<Rightarrow> rat" where
  "f32_value w =
     (if f32_sign w then - 1 else 1) * of_nat (f32_significand w) * 2 powi f32_scale w"

definition f32_is_nan :: "float32 \<Rightarrow> bool" where
  "f32_is_nan w = (f32_exponent w = 255 \<and> f32_fraction w \<noteq> 0)"

definition f32_is_inf :: "float32 \<Rightarrow> bool" where
  "f32_is_inf w = (f32_exponent w = 255 \<and> f32_fraction w = 0)"

definition f32_sign_bit :: "bool \<Rightarrow> nat" where
  "f32_sign_bit s = (if s then 2 ^ 31 else 0)"

text \<open>The pattern with sign \<open>s\<close> and the 31 bits \<open>b\<close> of exponent and fraction.\<close>

definition f32_pack :: "bool \<Rightarrow> nat \<Rightarrow> float32" where
  "f32_pack s b = word_of_nat (f32_sign_bit s + b)"

definition f32_infinity :: "bool \<Rightarrow> float32" where
  "f32_infinity s = f32_pack s (255 * 2 ^ 23)"

definition f32_quiet_nan :: float32 where
  "f32_quiet_nan = 0x7FC00000"

text \<open>\<open>m / 2 ^ k\<close> rounded to the nearest integer, a tie to the even one.\<close>

definition round_shift :: "nat \<Rightarrow> nat \<Rightarrow> nat" where
  "round_shift m k =
     (let q = m div 2 ^ k; r = m mod 2 ^ k
      in if 2 * r > 2 ^ k \<or> (2 * r = 2 ^ k \<and> odd q) then q + 1 else q)"

text \<open>
  Round-to-nearest-even of \<open>\<plusminus> m * 2 ^ e\<close>, the default rounding mode. The unit in the
  last place \<open>2 ^ u\<close> leaves 24 significant bits and is not below \<open>2 ^ - 149\<close>. Exponent
  and fraction are packed by addition, so that a significand rounded up to \<open>2 ^ 24\<close>
  carries into the exponent; a magnitude from \<open>2 ^ 128\<close> on is infinity.
\<close>

definition f32_round :: "bool \<Rightarrow> nat \<Rightarrow> int \<Rightarrow> float32" where
  "f32_round s m e =
     (if m = 0 then f32_pack s 0
      else
        let u = max (int (floorlog 2 m) + e - 24) (- 149);
            q = (if u \<le> e then m * 2 ^ nat (e - u) else round_shift m (nat (u - e)));
            b = nat (u + 149) * 2 ^ 23 + q
        in if b \<ge> 255 * 2 ^ 23 then f32_infinity s else f32_pack s b)"

text \<open>\<open>static_cast<float>\<close> of a 16-bit or 32-bit integer.\<close>

definition f32_of_int :: "int \<Rightarrow> float32" where
  "f32_of_int i = f32_round (i < 0) (nat \<bar>i\<bar>) 0"

text \<open>
  The product of two floats. For a NaN operand the result is the default quiet NaN
  (which payload survives is left to the hardware and plays no part below).
\<close>

definition f32_mul :: "float32 \<Rightarrow> float32 \<Rightarrow> float32" where
  "f32_mul a b =
     (let s = (f32_sign a \<noteq> f32_sign b)
      in if f32_is_nan a \<or> f32_is_nan b then f32_quiet_nan
         else if f32_is_inf a \<or> f32_is_inf b
         then (if f32_significand a = 0 \<or> f32_significand b = 0 then f32_quiet_nan
               else f32_infinity s)
         else f32_round s (f32_significand a * f32_significand b) (f32_scale a + f32_scale b))"

text \<open>
  The two constants \<open>1.0f / 32768.0f\<close> and \<open>1.0f / 2147483648.0f\<close>: both quotients are
  powers of two, \<open>2 ^ - 15\<close> and \<open>2 ^ - 31\<close>, with biased exponents 112 and 96.
\<close>

definition scale_int16 :: float32 where
  "scale_int16 = 0x38000000"

definition scale_int32 :: float32 where
  "scale_int32 = 0x30000000"

section \<open>The Sample Converter\<close>

text \<open>
  \<open>reinterpret_cast\<close> of the byte buffer: element \<open>i\<close> of the little-endian view as
  16-bit integers, 32-bit integers or 32-bit floats.
\<close>

type_synonym byte = "8 word"

definition load_int16 :: "byte list \<Rightarrow> nat \<Rightarrow> 16 word" where
  "load_int16 p i = word_rcat [p ! (2 * i + 1), p ! (2 * i)]"

definition load_int32 :: "byte list \<Rightarrow> nat \<Rightarrow> 32 word" where
  "load_int32 p i = word_rcat [p ! (4 * i + 3), p ! (4 * i + 2), p ! (4 * i + 1), p ! (4 * i)]"

definition load_float32 :: "byte list \<Rightarrow> nat \<Rightarrow> float32" where
  "load_float32 p i = load_int32 p i"

text \<open>
  The index \<open>frame * channels + ch\<close> is computed in \<open>UINT32\<close>; so is the element count
  \<open>numFrames * channels\<close> of \<open>std::copy\<close> and \<open>std::fill\<close>.
\<close>

definition sample_index :: "nat \<Rightarrow> nat \<Rightarrow> nat \<Rightarrow> nat" where
  "sample_index frame channels ch = (frame * channels + ch) mod 2 ^ 32"

definition convert_int16 :: "byte list \<Rightarrow> nat \<Rightarrow> float32" where
  "convert_int16 src srcIdx = f32_mul (f32_of_int (sint (load_int16 src srcIdx))) scale_int16"

definition convert_int32 :: "byte list \<Rightarrow> nat \<Rightarrow> float32" where
  "convert_int32 src srcIdx = f32_mul (f32_of_int (sint (load_int32 src srcIdx))) scale_int32"

text \<open>The two nested \<open>for\<close> loops over frames and channels, writing \<open>pDest[destIdx]\<close>.\<close>

definition convert_loop ::
  "(byte list \<Rightarrow> nat \<Rightarrow> float32) \<Rightarrow> byte list \<Rightarrow> nat \<Rightarrow> nat \<Rightarrow> float32 list \<Rightarrow> float32 list" where
  "convert_loop conv src numFrames channels dest =
     fold (\<lambda>frame. fold (\<lambda>ch d. d[sample_index frame channels ch :=
                                     conv src (sample_index frame channels ch)])
                         [0..<channels])
          [0..<numFrames] dest"

definition copy_floats :: "byte list \<Rightarrow> nat \<Rightarrow> float32 list \<Rightarrow> float32 list" where
  "copy_floats src count dest = map (load_float32 src) [0..<count] @ drop count dest"

definition fill_zero :: "nat \<Rightarrow> float32 list \<Rightarrow> float32 list" where
  "fill_zero count dest = replicate count 0 @ drop count dest"

text \<open>
  \<open>pSource\<close> is \<open>None\<close> for a null pointer. \<open>pDest\<close> is the memory the destination
  pointer refers to, and the result is that memory after the call.
\<close>

definition convertToFloat32 ::
  "WAVEFORMATEX option \<Rightarrow> byte list option \<Rightarrow> float32 list option \<Rightarrow> nat \<Rightarrow> float32 list option" where
  "convertToFloat32 waveFormat pSource pDest numFrames =
     (case (pSource, pDest, waveFormat) of
        (Some src, Some dest, Some wfx) \<Rightarrow>
          if numFrames = 0 then Some dest
          else
            let bitsPerSample = wBitsPerSample wfx;
                channels = unat (nChannels wfx);
                count = (numFrames * channels) mod 2 ^ 32
            in if wFormatTag wfx = WAVE_FORMAT_IEEE_FLOAT then Some (copy_floats src count dest)
               else if wFormatTag wfx = WAVE_FORMAT_PCM then
                 (if bitsPerSample = 16 then Some (convert_loop convert_int16 src numFrames channels dest)
                  else if bitsPerSample = 32 then Some (convert_loop convert_int32 src numFrames channels dest)
                  else Some (fill_zero count dest))
               else Some (fill_zero count dest)
      | _ \<Rightarrow> pDest)"

section \<open>Level meters and the Meter Snapshot\<close>

text \<open>
  Modelled from the spec: \<open>common/meter-values.h\<close> is not among the sources. A
  Per-Channel Level is \<open>{left, right}\<close> and a Meter Snapshot is
  \<open>{peak, rms, timestampMs}\<close>. The levels are taken as real numbers.
\<close>

record ChannelLevels =
  left :: real
  right :: real

record MeterSnapshot =
  peak :: ChannelLevels
  rms :: ChannelLevels
  timestampMs :: int

text \<open>
  Modelled from the spec: \<open>core/meters/peak-meter.cpp\<close> and \<open>rms-meter.cpp\<close> are not
  among the sources. Per channel, the peak is the maximum absolute sample value and the
  RMS is the square root of the mean of the squares, each clamped to \<open>[0, 1]\<close>; a buffer
  of zero frames gives 0; for mono input the right level equals the left one.
\<close>

definition clamp01 :: "real \<Rightarrow> real" where
  "clamp01 x = max 0 (min 1 x)"

definition channel_samples :: "float32 list \<Rightarrow> nat \<Rightarrow> nat \<Rightarrow> nat \<Rightarrow> real list" where
  "channel_samples buffer frameCount channels ch =
     map (\<lambda>frame. of_rat (f32_value (buffer ! (frame * channels + ch)))) [0..<frameCount]"

definition peak_level :: "real list \<Rightarrow> real" where
  "peak_level xs = clamp01 (fold max (map abs xs) 0)"

definition rms_level :: "real list \<Rightarrow> real" where
  "rms_level xs =
     (if xs = [] then 0 else clamp01 (sqrt (sum_list (map (\<lambda>x. x * x) xs) / real (length xs))))"

definition meter_process :: "(real list \<Rightarrow> real) \<Rightarrow> float32 list \<Rightarrow> nat \<Rightarrow> AudioFormat \<Rightarrow> ChannelLevels" where
  "meter_process level buffer frameCount format =
     (let l = level (channel_samples buffer frameCount (channelCount format) 0)
      in if channelCount format = 1 then \<lparr>left = l, right = l\<rparr>
         else \<lparr>left = l,
               right = level (channel_samples buffer frameCount (channelCount format) 1)\<rparr>)"

text \<open>Modelled from the spec: \<open>PeakMeter::process\<close>, the peak level of each channel.\<close>

definition PeakMeter_process :: "float32 list \<Rightarrow> nat \<Rightarrow> AudioFormat \<Rightarrow> ChannelLevels" where
  "PeakMeter_process = meter_process peak_level"

text \<open>Modelled from the spec: \<open>RmsMeter::process\<close>, the RMS level of each channel.\<close>

definition RmsMeter_process :: "float32 list \<Rightarrow> nat \<Rightarrow> AudioFormat \<Rightarrow> ChannelLevels" where
  "RmsMeter_process = meter_process rms_level"

section \<open>The Metering Adapter\<close>

text \<open>
  A call made on an observer: \<open>onAudioData\<close> with the borrowed buffer, or \<open>onMeterData\<close>
  with a snapshot.
\<close>

datatype delivery =
  OnAudioData callback_id "float32 list" nat AudioFormat
| OnMeterData callback_id MeterSnapshot

definition forwardMeterData :: "AudioEngine \<Rightarrow> MeterSnapshot \<Rightarrow> delivery list" where
  "forwardMeterData e snapshot =
     concat (map (\<lambda>callback. case callback of None \<Rightarrow> [] | Some cb \<Rightarrow> [OnMeterData cb snapshot])
                 (m_callbacks_engine e))"

definition MeteringCallback_snapshot :: "float32 list \<Rightarrow> nat \<Rightarrow> AudioFormat \<Rightarrow> MeterSnapshot" where
  "MeteringCallback_snapshot buffer frameCount format =
     \<lparr>peak = PeakMeter_process buffer frameCount format,
      rms = RmsMeter_process buffer frameCount format,
      timestampMs = 0\<rparr>"

definition MeteringCallback_onAudioData ::
  "AudioEngine \<Rightarrow> float32 list option \<Rightarrow> nat \<Rightarrow> AudioFormat \<Rightarrow> delivery list" where
  "MeteringCallback_onAudioData e buffer frameCount format =
     (case buffer of
        None \<Rightarrow> []
      | Some buf \<Rightarrow>
          if frameCount = 0 then []
          else forwardMeterData e (MeteringCallback_snapshot buf frameCount format))"

text \<open>
  The virtual call \<open>callback->onAudioData(...)\<close>: the engine's own adapter runs the
  code above; what an observer of the application does is recorded as the call.
\<close>

definition onAudioData :: "AudioEngine \<Rightarrow> callback_id \<Rightarrow> float32 list \<Rightarrow> nat \<Rightarrow> AudioFormat \<Rightarrow> delivery list" where
  "onAudioData e cb buffer frameCount format =
     (case cb of
        MeteringCallbackObj \<Rightarrow> MeteringCallback_onAudioData e (Some buffer) frameCount format
      | ExternalCallback k \<Rightarrow> [OnAudioData (ExternalCallback k) buffer frameCount format])"

section \<open>The capture loop\<close>

text \<open>\<open>std::vector::resize\<close>: truncate, or extend with value-initialised (zero) floats.\<close>

definition resize :: "nat \<Rightarrow> float32 list \<Rightarrow> float32 list" where
  "resize n buf = take n buf @ replicate (n - length buf) 0"

text \<open>
  \<open>processAudioData\<close> works on the capture member of the engine and calls every
  registered callback; the result is the engine after the call and the calls made on
  observers.
\<close>

definition processAudioData ::
  "byte list option \<Rightarrow> nat \<Rightarrow> 32 word \<Rightarrow> AudioEngine \<Rightarrow> AudioEngine \<times> delivery list" where
  "processAudioData pData numFramesAvailable flags e =
     (case pData of
        None \<Rightarrow> (e, [])
      | Some bytes \<Rightarrow>
          if numFramesAvailable = 0 then (e, [])
          else
            let c = m_capture e;
                totalSamples = numFramesAvailable * samplesPerFrame (m_format c);
                buf = (if flags AND AUDCLNT_BUFFERFLAGS_SILENT \<noteq> 0
                       then replicate (length (resize totalSamples (m_floatBuffer c))) 0
                       else (case convertToFloat32 (m_waveFormat c) pData
                                    (Some (resize totalSamples (m_floatBuffer c))) numFramesAvailable of
                               None \<Rightarrow> resize totalSamples (m_floatBuffer c)
                             | Some dest \<Rightarrow> dest));
                e' = e\<lparr>m_capture := c\<lparr>m_floatBuffer := buf\<rparr>\<rparr>
            in (e', concat (map (\<lambda>callback. case callback of
                                    None \<Rightarrow> []
                                  | Some cb \<Rightarrow> onAudioData e' cb buf numFramesAvailable (m_format c))
                                (m_callbacks c))))"

text \<open>
  One pass of the \<open>while\<close> loop sees: the flag \<open>m_capturing\<close> as the loop test reads it
  (\<open>stop()\<close> clears it from another thread), the result of the 100 ms wait on the stop
  event, and what \<open>GetBuffer\<close> returns.
\<close>

datatype wait_result = WAIT_OBJECT_0 | WAIT_TIMEOUT | WAIT_FAILED

record Iteration =
  it_capturing :: bool
  it_wait :: wait_result
  it_hr :: HRESULT
  it_pData :: "byte list option"
  it_numFramesAvailable :: nat
  it_flags :: "32 word"

text \<open>
  What the loop does, in order: calls on the capture client, with the frame count a
  successful \<open>GetBuffer\<close> reports, and calls on observers.
\<close>

datatype capture_event =
  GetBuffer HRESULT nat
| ReleaseBuffer nat
| Deliver delivery

text \<open>
  The loop over the passes observed. It leaves when the flag is clear or the stop event is
  signalled; the list ends where the observation of a still running loop ends.
\<close>

fun captureThread :: "AudioEngine \<Rightarrow> Iteration list \<Rightarrow> AudioEngine \<times> capture_event list" where
  "captureThread e [] = (e, [])"
| "captureThread e (it # its) =
     (if \<not> it_capturing it then (e, [])
      else if it_wait it = WAIT_OBJECT_0 then (e, [])
      else if FAILED (it_hr it) then
        (case captureThread e its of
           (e', evs) \<Rightarrow> (e', GetBuffer (it_hr it) (it_numFramesAvailable it) # evs))
      else if it_numFramesAvailable it = 0 then
        (case captureThread e its of
           (e', evs) \<Rightarrow> (e', GetBuffer (it_hr it) 0 # ReleaseBuffer 0 # evs))
      else
        (case (if it_pData it \<noteq> None
               then processAudioData (it_pData it) (it_numFramesAvailable it) (it_flags it) e
               else (e, [])) of
           (e1, ds) \<Rightarrow>
             (case captureThread e1 its of
                (e', evs) \<Rightarrow>
                  (e', GetBuffer (it_hr it) (it_numFramesAvailable it) # map Deliver ds
                       @ ReleaseBuffer (it_numFramesAvailable it) # evs))))"

text \<open>The number of passes the loop makes before it leaves.\<close>

fun passes :: "Iteration list \<Rightarrow> nat" where
  "passes [] = 0"
| "passes (it # its) =
     (if \<not> it_capturing it \<or> it_wait it = WAIT_OBJECT_0 then 0 else Suc (passes its))"

section \<open>Properties checked on the model\<close>

text \<open>Every device and session resource is released: the pointers and handles are null.\<close>

definition released :: "WasapiCapture \<Rightarrow> bool" where
  "released c =
     (\<not> m_deviceEnumerator c \<and> \<not> m_device c \<and> m_audioClient c = None \<and>
      \<not> m_captureClient c \<and> m_waveFormat c = None \<and> \<not> m_comInitialized c \<and>
      m_stopEvent c = None)"

text \<open>The answers under which \<open>initialize()\<close> passes every check of its body.\<close>

definition InitEnv_succeeds :: "InitEnv \<Rightarrow> bool" where
  "InitEnv_succeeds env =
     ((\<not> FAILED (CoInitializeEx_hr env) \<or> CoInitializeEx_hr env = RPC_E_CHANGED_MODE) \<and>
      \<not> FAILED (CoCreateInstance_hr env) \<and>
      \<not> FAILED (GetDefaultAudioEndpoint_hr env) \<and>
      \<not> FAILED (Activate_hr env) \<and>
      \<not> FAILED (GetMixFormat_hr env) \<and>
      (wFormatTag (GetMixFormat_format env) = WAVE_FORMAT_PCM \<or>
       wFormatTag (GetMixFormat_format env) = WAVE_FORMAT_IEEE_FLOAT) \<and>
      1 \<le> unat (nChannels (GetMixFormat_format env)) \<and>
      unat (nChannels (GetMixFormat_format env)) \<le> 2 \<and>
      \<not> FAILED (Initialize_hr env) \<and>
      \<not> FAILED (GetService_hr env) \<and>
      CreateEvent_ok env)"

text \<open>
  The buffer protocol of the capture client, read off a sequence of events: \<open>held\<close> is
  the frame count of the buffer acquired and not yet released. A buffer is acquired
  only when none is held, released only when held and with its own frame count, nothing
  is delivered from an empty buffer, and none is held at the end.
\<close>

fun buffer_protocol :: "nat option \<Rightarrow> capture_event list \<Rightarrow> bool" where
  "buffer_protocol held [] = (held = None)"
| "buffer_protocol held (GetBuffer hr n # evs) =
     (held = None \<and> buffer_protocol (if FAILED hr then None else Some n) evs)"
| "buffer_protocol held (ReleaseBuffer n # evs) = (held = Some n \<and> buffer_protocol None evs)"
| "buffer_protocol held (Deliver d # evs) =
     (held \<noteq> None \<and> held \<noteq> Some 0 \<and> buffer_protocol held evs)"

text \<open>The calls of \<open>GetBuffer\<close> in a sequence of events.\<close>

fun polls :: "capture_event list \<Rightarrow> nat" where
  "polls [] = 0"
| "polls (GetBuffer hr n # evs) = Suc (polls evs)"
| "polls (ev # evs) = polls evs"

section \<open>Concrete devices and states\<close>

text \<open>
  A device whose every call succeeds and which negotiates the given mix format; a
  stereo format of 48 kHz with the given tag and bit depth.
\<close>

definition stereo_format :: "16 word \<Rightarrow> 16 word \<Rightarrow> WAVEFORMATEX" where
  "stereo_format tag bits =
     \<lparr>wFormatTag = tag, nChannels = 2, nSamplesPerSec = 48000,
      nAvgBytesPerSec = 48000 * 2 * ucast (bits div 8), nBlockAlign = 2 * (bits div 8),
      wBitsPerSample = bits, cbSize = 0\<rparr>"

definition device_ok :: "WAVEFORMATEX \<Rightarrow> InitEnv" where
  "device_ok fmt =
     \<lparr>CoInitializeEx_hr = S_OK, CoCreateInstance_hr = S_OK, GetDefaultAudioEndpoint_hr = S_OK,
      Activate_hr = S_OK, GetMixFormat_hr = S_OK, GetMixFormat_format = fmt,
      Initialize_hr = S_OK, GetService_hr = S_OK, CreateEvent_ok = True\<rparr>"

text \<open>Answers to \<open>start()\<close>: everything succeeds, or the thread cannot be created.\<close>

definition start_ok :: StartEnv where
  "start_ok = \<lparr>Start_hr = S_OK, CreateThread_ok = True\<rparr>"

definition start_no_thread :: StartEnv where
  "start_no_thread = \<lparr>Start_hr = S_OK, CreateThread_ok = False\<rparr>"

definition pcm16_env :: InitEnv where
  "pcm16_env = device_ok (stereo_format WAVE_FORMAT_PCM 16)"

definition initialized_capture :: WasapiCapture where
  "initialized_capture = snd (WasapiCapture_initialize pcm16_env WasapiCapture_new)"

definition capturing_capture :: WasapiCapture where
  "capturing_capture = snd (WasapiCapture_start start_ok initialized_capture)"

text \<open>
  Devices for particular runs: one that negotiates 24-bit PCM, one without a default
  render endpoint, one whose audio client has no capture service; and an observer of
  the application.
\<close>

definition pcm24_env :: InitEnv where
  "pcm24_env = device_ok (stereo_format WAVE_FORMAT_PCM 24)"

definition no_endpoint_env :: InitEnv where
  "no_endpoint_env = pcm16_env\<lparr>GetDefaultAudioEndpoint_hr := E_FAIL\<rparr>"

definition no_service_env :: InitEnv where
  "no_service_env = pcm16_env\<lparr>GetService_hr := E_FAIL\<rparr>"

definition observer :: callback_ptr where
  "observer = Some (ExternalCallback 0)"

text \<open>
  An engine that captures, with the metering adapter registered on the capture and one
  observer registered on the facade; a pass of the loop in which \<open>GetBuffer\<close> reports a
  lost buffer, and one in which it delivers one frame flagged as silent.
\<close>

definition metering_engine :: AudioEngine where
  "metering_engine =
     \<lparr>m_capture = WasapiCapture_registerCallback (Some MeteringCallbackObj) capturing_capture,
      m_callbacks_engine = [observer]\<rparr>"

definition buffer_error_pass :: Iteration where
  "buffer_error_pass =
     \<lparr>it_capturing = True, it_wait = WAIT_TIMEOUT, it_hr = AUDCLNT_E_BUFFER_ERROR,
      it_pData = None, it_numFramesAvailable = 0, it_flags = 0\<rparr>"

definition silent_pass :: Iteration where
  "silent_pass =
     \<lparr>it_capturing = True, it_wait = WAIT_TIMEOUT, it_hr = S_OK,
      it_pData = Some [0, 0, 0, 0], it_numFramesAvailable = 1,
      it_flags = AUDCLNT_BUFFERFLAGS_SILENT\<rparr>"

text \<open>
  Device buffers of one stereo frame: the two extreme 16-bit samples 32767 and -32768,
  and the two 32-bit samples 2147483647 and 16777217, which no 32-bit float holds.
\<close>

definition int16_extremes :: "byte list" where
  "int16_extremes = [0xFF, 0x7F, 0x00, 0x80]"

definition int32_unrepresentable :: "byte list" where
  "int32_unrepresentable = [0xFF, 0xFF, 0xFF, 0x7F, 0x01, 0x00, 0x00, 0x01]"

text \<open>
  Two floats, 1.0 and a NaN, and the two 32-bit samples 1 and -1.
\<close>

definition float_one_and_nan :: "byte list" where
  "float_one_and_nan = [0x00, 0x00, 0x80, 0x3F, 0x01, 0x00, 0xC0, 0x7F]"

definition int32_small :: "byte list" where
  "int32_small = [0x01, 0x00, 0x00, 0x00, 0xFF, 0xFF, 0xFF, 0xFF]"

section \<open>Lifecycle: initialize, start, stop, shutdown\<close>

lemma FAILED_simps [simp]: "\<not> FAILED S_OK" "FAILED E_FAIL"
  by (simp_all add: FAILED_def S_OK_def E_FAIL_def)

lemma initialize_ok_iff:
  "\<not> m_comInitialized c \<Longrightarrow> fst (WasapiCapture_initialize env c) = InitEnv_succeeds env"
  unfolding WasapiCapture_initialize_def InitEnv_succeeds_def Let_def
  apply (simp split del: if_split add: if_distrib [of fst] cong: if_cong)
  apply (auto simp: not_less_eq_eq)
  done

lemma shutdown_fix:
  "released c \<Longrightarrow> \<not> m_capturing c \<Longrightarrow> WasapiCapture_shutdown c = c"
  by (simp add: WasapiCapture_shutdown_def WasapiCapture_stop_def releaseAudioClient_def
      releaseCom_def released_def Let_def)

lemma shutdown_released: "released (WasapiCapture_shutdown c)"
  by (simp add: WasapiCapture_shutdown_def WasapiCapture_stop_def releaseAudioClient_def
      releaseCom_def released_def Let_def)

lemma shutdown_not_capturing: "\<not> m_capturing (WasapiCapture_shutdown c)"
  by (simp add: WasapiCapture_shutdown_def WasapiCapture_stop_def releaseAudioClient_def
      releaseCom_def Let_def)

lemma stop_not_capturing: "\<not> m_capturing (WasapiCapture_stop c)"
  by (simp add: WasapiCapture_stop_def Let_def)

lemma stop_fix: "\<not> m_capturing c \<Longrightarrow> WasapiCapture_stop c = c"
  by (simp add: WasapiCapture_stop_def)

lemma shutdown_callbacks: "m_callbacks (WasapiCapture_shutdown c) = m_callbacks c"
  by (simp add: WasapiCapture_shutdown_def WasapiCapture_stop_def releaseAudioClient_def
      releaseCom_def Let_def)

lemma new_released: "released WasapiCapture_new" "\<not> m_capturing WasapiCapture_new"
  by (simp_all add: released_def WasapiCapture_new_def)

text \<open>
  Claim C6. Every use of a pointer or handle in \<open>stop()\<close> and \<open>shutdown()\<close> stands under
  its null test, so both are total on every state. \<open>stop()\<close> twice is the same as
  once, and it leaves the capture not capturing. \<open>shutdown()\<close> on a fresh object changes nothing, \<open>shutdown()\<close> twice is the
  same as once, it includes \<open>stop()\<close>, and after it every device and session resource is
  released and the capture is not capturing, whatever the state before. From the state
  after \<open>shutdown()\<close>, \<open>initialize()\<close> succeeds exactly when the device lets it. The same
  holds for the facade, whose \<open>shutdown()\<close> also clears the external registrations and
  unregisters the metering adapter.
\<close>

theorem stop_shutdown_safe:
  "WasapiCapture_stop (WasapiCapture_stop c) = WasapiCapture_stop c \<and>
   \<not> m_capturing (WasapiCapture_stop c) \<and>
   WasapiCapture_shutdown WasapiCapture_new = WasapiCapture_new \<and>
   WasapiCapture_shutdown (WasapiCapture_shutdown c) = WasapiCapture_shutdown c \<and>
   WasapiCapture_shutdown (WasapiCapture_stop c) = WasapiCapture_shutdown c \<and>
   released (WasapiCapture_shutdown c) \<and>
   \<not> m_capturing (WasapiCapture_shutdown c) \<and>
   fst (WasapiCapture_initialize env (WasapiCapture_shutdown c)) = InitEnv_succeeds env \<and>
   AudioEngine_stop (AudioEngine_stop e) = AudioEngine_stop e \<and>
   AudioEngine_shutdown AudioEngine_new = AudioEngine_new \<and>
   AudioEngine_shutdown (AudioEngine_shutdown e) = AudioEngine_shutdown e \<and>
   released (m_capture (AudioEngine_shutdown e)) \<and>
   \<not> AudioEngine_isCapturing (AudioEngine_shutdown e) \<and>
   m_callbacks_engine (AudioEngine_shutdown e) = [] \<and>
   Some MeteringCallbackObj \<notin> set (m_callbacks (m_capture (AudioEngine_shutdown e))) \<and>
   fst (AudioEngine_initialize env (AudioEngine_shutdown e)) = InitEnv_succeeds env"
proof -
  have r: "\<not> m_comInitialized (WasapiCapture_shutdown c)" for c
    using shutdown_released [of c] by (simp add: released_def)
  have s1: "WasapiCapture_stop (WasapiCapture_stop c) = WasapiCapture_stop c" for c
    by (rule stop_fix [OF stop_not_capturing])
  have s2: "WasapiCapture_shutdown (WasapiCapture_shutdown c) = WasapiCapture_shutdown c" for c
    by (rule shutdown_fix [OF shutdown_released shutdown_not_capturing])
  have s3: "WasapiCapture_shutdown (WasapiCapture_stop c) = WasapiCapture_shutdown c"
    by (simp add: WasapiCapture_shutdown_def s1)
  have s4: "WasapiCapture_shutdown WasapiCapture_new = WasapiCapture_new"
    by (rule shutdown_fix [OF new_released])
  have a1: "AudioEngine_stop (AudioEngine_stop e) = AudioEngine_stop e"
    by (simp add: AudioEngine_stop_def s1)
  have un: "WasapiCapture_unregisterCallback (Some MeteringCallbackObj) WasapiCapture_new
              = WasapiCapture_new"
    by (simp add: WasapiCapture_unregisterCallback_def WasapiCapture_new_def)
  have a2: "AudioEngine_shutdown AudioEngine_new = AudioEngine_new"
    by (simp add: AudioEngine_shutdown_def AudioEngine_stop_def AudioEngine_new_def Let_def
        stop_fix [OF new_released(2)] s4 un)
  have cap: "m_capture (AudioEngine_shutdown e) =
               WasapiCapture_shutdown
                 (WasapiCapture_unregisterCallback (Some MeteringCallbackObj)
                    (WasapiCapture_stop (m_capture e)))" for e
    by (simp add: AudioEngine_shutdown_def AudioEngine_stop_def Let_def)
  have cbs: "m_callbacks_engine (AudioEngine_shutdown e) = []" for e
    by (simp add: AudioEngine_shutdown_def AudioEngine_stop_def Let_def)
  have unreg: "WasapiCapture_unregisterCallback cb (WasapiCapture_shutdown c) = WasapiCapture_shutdown c"
    if "cb \<notin> set (m_callbacks c)" for cb c
    using that by (simp add: WasapiCapture_unregisterCallback_def shutdown_callbacks)
  have nm: "Some MeteringCallbackObj \<notin> set (m_callbacks (m_capture (AudioEngine_shutdown e)))" for e
    by (simp add: cap shutdown_callbacks WasapiCapture_unregisterCallback_def)
  have a3: "AudioEngine_shutdown (AudioEngine_shutdown e) = AudioEngine_shutdown e"
  proof -
    let ?e = "AudioEngine_shutdown e"
    let ?c = "WasapiCapture_unregisterCallback (Some MeteringCallbackObj)
                (WasapiCapture_stop (m_capture e))"
    have m: "Some MeteringCallbackObj \<notin> set (m_callbacks ?c)"
      by (simp add: WasapiCapture_unregisterCallback_def)
    have "m_capture (AudioEngine_shutdown ?e) =
            WasapiCapture_shutdown (WasapiCapture_unregisterCallback (Some MeteringCallbackObj)
              (WasapiCapture_stop (WasapiCapture_shutdown ?c)))"
      by (simp only: cap)
    also have "\<dots> = WasapiCapture_shutdown (WasapiCapture_shutdown ?c)"
      by (simp only: stop_fix [OF shutdown_not_capturing] unreg [OF m])
    also have "\<dots> = m_capture ?e"
      by (simp only: s2 cap)
    finally have "m_capture (AudioEngine_shutdown ?e) = m_capture ?e" .
    moreover have "m_callbacks_engine (AudioEngine_shutdown ?e) = m_callbacks_engine ?e"
      by (simp add: cbs)
    ultimately show ?thesis by (simp add: AudioEngine.equality)
  qed
  have a4: "fst (AudioEngine_initialize env (AudioEngine_shutdown e)) = InitEnv_succeeds env"
  proof -
    have "fst (AudioEngine_initialize env x) = fst (WasapiCapture_initialize env (m_capture x))" for x
      by (simp add: AudioEngine_initialize_def split: prod.splits)
    then show ?thesis by (simp add: cap initialize_ok_iff [OF r])
  qed
  show ?thesis
    by (simp add: s1 s2 s3 s4 a1 a2 a3 a4 cbs nm stop_not_capturing shutdown_not_capturing
        initialize_ok_iff [OF r] AudioEngine_isCapturing_def WasapiCapture_isCapturing_def)
      (simp add: cap shutdown_released shutdown_not_capturing)
qed

lemma pcm16_env_succeeds: "InitEnv_succeeds pcm16_env"
  by (simp add: InitEnv_succeeds_def pcm16_env_def device_ok_def stereo_format_def)

lemma initialized_capture_eq:
  "initialized_capture =
     \<lparr>m_deviceEnumerator = True, m_device = True, m_audioClient = Some StreamStopped,
      m_captureClient = True, m_waveFormat = Some (stereo_format WAVE_FORMAT_PCM 16),
      m_format = \<lparr>sampleRate = 48000, channelCount = 2\<rparr>,
      m_capturing = False, m_captureThread = False, m_stopEvent = Some False,
      m_callbacks = [], m_floatBuffer = [], m_comInitialized = True\<rparr>"
  by (simp add: initialized_capture_def WasapiCapture_initialize_def pcm16_env_def device_ok_def
      stereo_format_def WasapiCapture_new_def Let_def WAVE_FORMAT_PCM_def WAVE_FORMAT_IEEE_FLOAT_def)

lemma capturing_capture_facts:
  "m_capturing capturing_capture" "m_audioClient capturing_capture = Some StreamRunning"
  by (simp_all add: capturing_capture_def initialized_capture_eq WasapiCapture_start_def
      start_ok_def Let_def)

theorem stop_shutdown_safe_witness:
  "InitEnv_succeeds pcm16_env \<and>
   fst (WasapiCapture_initialize pcm16_env (WasapiCapture_shutdown capturing_capture)) \<and>
   released (WasapiCapture_shutdown capturing_capture) \<and>
   fst (AudioEngine_initialize pcm16_env
          (AudioEngine_shutdown \<lparr>m_capture = capturing_capture, m_callbacks_engine = []\<rparr>))"
  using stop_shutdown_safe [of capturing_capture pcm16_env
      "\<lparr>m_capture = capturing_capture, m_callbacks_engine = []\<rparr>"]
  by (simp add: pcm16_env_succeeds)

text \<open>
  Claim C7. \<open>start()\<close> on a capturing engine changes nothing and returns true. When the
  device stream starts and the thread cannot be created, \<open>start()\<close> returns false with
  the stream stopped again, the capturing flag clear and no thread handle. Whenever
  \<open>start()\<close> returns false, the engine is not capturing, and the stream does not run
  unless it ran before the call.
\<close>

theorem start_idempotent_and_rollback:
  "(m_capturing c \<longrightarrow> WasapiCapture_start env c = (True, c)) \<and>
   (m_capturing (m_capture e) \<longrightarrow> AudioEngine_start env e = (True, e)) \<and>
   (\<not> m_capturing c \<and> m_audioClient c \<noteq> None \<and> m_captureClient c \<and>
    \<not> FAILED (Start_hr env) \<and> \<not> CreateThread_ok env \<longrightarrow>
      \<not> fst (WasapiCapture_start env c) \<and>
      m_audioClient (snd (WasapiCapture_start env c)) = Some StreamStopped \<and>
      \<not> m_capturing (snd (WasapiCapture_start env c)) \<and>
      \<not> m_captureThread (snd (WasapiCapture_start env c))) \<and>
   (\<not> fst (WasapiCapture_start env c) \<and> m_audioClient c \<noteq> Some StreamRunning \<longrightarrow>
      \<not> m_capturing (snd (WasapiCapture_start env c)) \<and>
      m_audioClient (snd (WasapiCapture_start env c)) \<noteq> Some StreamRunning)"
  by (auto simp: WasapiCapture_start_def AudioEngine_start_def Let_def)

theorem start_idempotent_and_rollback_witness:
  "m_capturing capturing_capture \<and>
   WasapiCapture_start start_no_thread capturing_capture = (True, capturing_capture) \<and>
   m_capturing (m_capture metering_engine) \<and>
   AudioEngine_start start_ok metering_engine = (True, metering_engine) \<and>
   \<not> m_capturing initialized_capture \<and> m_audioClient initialized_capture \<noteq> None \<and>
   m_captureClient initialized_capture \<and> \<not> FAILED (Start_hr start_no_thread) \<and>
   \<not> CreateThread_ok start_no_thread \<and>
   m_audioClient initialized_capture \<noteq> Some StreamRunning \<and>
   \<not> fst (WasapiCapture_start start_no_thread initialized_capture) \<and>
   m_audioClient (snd (WasapiCapture_start start_no_thread initialized_capture)) = Some StreamStopped \<and>
   \<not> m_capturing (snd (WasapiCapture_start start_no_thread initialized_capture)) \<and>
   \<not> m_captureThread (snd (WasapiCapture_start start_no_thread initialized_capture))"
proof -
  have m: "m_capturing (m_capture metering_engine)"
    by (simp add: metering_engine_def WasapiCapture_registerCallback_def capturing_capture_facts)
  have i: "\<not> m_capturing initialized_capture" "m_audioClient initialized_capture \<noteq> None"
    "m_captureClient initialized_capture" "\<not> FAILED (Start_hr start_no_thread)"
    "\<not> CreateThread_ok start_no_thread" "m_audioClient initialized_capture \<noteq> Some StreamRunning"
    by (simp_all add: initialized_capture_eq start_no_thread_def)
  show ?thesis
    using start_idempotent_and_rollback [of capturing_capture start_no_thread]
      start_idempotent_and_rollback [of initialized_capture start_no_thread]
      start_idempotent_and_rollback [of capturing_capture start_ok metering_engine]
      capturing_capture_facts(1) m i
    by simp
qed

text \<open>
  Claim C3, evaluated where it fails. With no default render endpoint, \<open>initialize()\<close>
  returns false and the device enumerator it created is still held. With no capture
  service, it returns false holding the enumerator, the device, the audio client and
  the wave format. Every failure path calls \<open>releaseCom()\<close>, which runs
  \<open>CoUninitialize\<close> and releases no interface; the three paths of format validation
  and client initialization free the wave format first, the last two do not.
\<close>

theorem initialize_failure_leaves_resources:
  "WasapiCapture_initialize no_endpoint_env WasapiCapture_new
     = (False, WasapiCapture_new\<lparr>m_deviceEnumerator := True\<rparr>) \<and>
   WasapiCapture_initialize no_service_env WasapiCapture_new
     = (False, WasapiCapture_new
          \<lparr>m_deviceEnumerator := True, m_device := True, m_audioClient := Some StreamStopped,
           m_waveFormat := Some (stereo_format WAVE_FORMAT_PCM 16),
           m_format := \<lparr>sampleRate = 48000, channelCount = 2\<rparr>\<rparr>) \<and>
   \<not> released (snd (WasapiCapture_initialize no_endpoint_env WasapiCapture_new)) \<and>
   \<not> released (snd (WasapiCapture_initialize no_service_env WasapiCapture_new))"
  by (simp add: WasapiCapture_initialize_def no_endpoint_env_def no_service_env_def pcm16_env_def
      device_ok_def stereo_format_def WasapiCapture_new_def releaseCom_def released_def Let_def
      WAVE_FORMAT_PCM_def WAVE_FORMAT_IEEE_FLOAT_def)

lemma initialize_bits_irrelevant:
  "fst (WasapiCapture_initialize
          (env\<lparr>GetMixFormat_format := (GetMixFormat_format env)\<lparr>wBitsPerSample := b\<rparr>\<rparr>) c)
     = fst (WasapiCapture_initialize env c)"
proof (cases "m_comInitialized c")
  case True
  then show ?thesis by (simp add: WasapiCapture_initialize_def)
next
  case False
  then show ?thesis by (simp add: initialize_ok_iff InitEnv_succeeds_def)
qed

lemma fill_zero_all:
  "length dest = count \<Longrightarrow> fill_zero count dest = replicate count 0"
  by (simp add: fill_zero_def)

text \<open>
  Claim C4, as the code has it. \<open>initialize()\<close> fails when the negotiated format is
  neither PCM nor IEEE float, or has a channel count outside 1 and 2. Its result
  does not depend on the bit depth; for a PCM format of another depth than 16 or 32
  the converter fills the buffer with zeros.
\<close>

theorem initialize_format_validation:
  "(\<not> m_comInitialized c \<and>
    (wFormatTag (GetMixFormat_format env) \<noteq> WAVE_FORMAT_PCM \<and>
     wFormatTag (GetMixFormat_format env) \<noteq> WAVE_FORMAT_IEEE_FLOAT \<or>
     unat (nChannels (GetMixFormat_format env)) < 1 \<or>
     unat (nChannels (GetMixFormat_format env)) > 2)
    \<longrightarrow> \<not> fst (WasapiCapture_initialize env c)) \<and>
   fst (WasapiCapture_initialize
          (env\<lparr>GetMixFormat_format := (GetMixFormat_format env)\<lparr>wBitsPerSample := b\<rparr>\<rparr>) c)
     = fst (WasapiCapture_initialize env c) \<and>
   (wFormatTag wfx = WAVE_FORMAT_PCM \<and> wBitsPerSample wfx \<noteq> 16 \<and> wBitsPerSample wfx \<noteq> 32 \<and>
    0 < numFrames \<and> numFrames * unat (nChannels wfx) < 2 ^ 32 \<and>
    length dest = numFrames * unat (nChannels wfx)
    \<longrightarrow> convertToFloat32 (Some wfx) (Some src) (Some dest) numFrames
          = Some (replicate (numFrames * unat (nChannels wfx)) 0))"
  by (auto simp: initialize_ok_iff InitEnv_succeeds_def initialize_bits_irrelevant
      convertToFloat32_def Let_def fill_zero_all WAVE_FORMAT_PCM_def WAVE_FORMAT_IEEE_FLOAT_def)

theorem initialize_format_validation_witness:
  "\<not> m_comInitialized WasapiCapture_new \<and>
   wFormatTag (GetMixFormat_format (device_ok (stereo_format 0xFFFE 32))) \<noteq> WAVE_FORMAT_PCM \<and>
   wFormatTag (GetMixFormat_format (device_ok (stereo_format 0xFFFE 32))) \<noteq> WAVE_FORMAT_IEEE_FLOAT \<and>
   \<not> fst (WasapiCapture_initialize (device_ok (stereo_format 0xFFFE 32)) WasapiCapture_new) \<and>
   wFormatTag (stereo_format WAVE_FORMAT_PCM 24) = WAVE_FORMAT_PCM \<and>
   wBitsPerSample (stereo_format WAVE_FORMAT_PCM 24) \<noteq> 16 \<and>
   wBitsPerSample (stereo_format WAVE_FORMAT_PCM 24) \<noteq> 32 \<and>
   convertToFloat32 (Some (stereo_format WAVE_FORMAT_PCM 24)) (Some [1, 2, 3, 4, 5, 6])
     (Some [7, 7]) 1 = Some [0, 0]"
proof -
  let ?env = "device_ok (stereo_format 0xFFFE 32)"
  let ?fmt = "stereo_format WAVE_FORMAT_PCM 24"
  have h1: "\<not> m_comInitialized WasapiCapture_new"
    by (simp add: WasapiCapture_new_def)
  have h2: "wFormatTag (GetMixFormat_format ?env) \<noteq> WAVE_FORMAT_PCM"
    "wFormatTag (GetMixFormat_format ?env) \<noteq> WAVE_FORMAT_IEEE_FLOAT"
    by (simp_all add: device_ok_def stereo_format_def WAVE_FORMAT_PCM_def WAVE_FORMAT_IEEE_FLOAT_def)
  have h3: "wFormatTag ?fmt = WAVE_FORMAT_PCM" "wBitsPerSample ?fmt \<noteq> 16"
    "wBitsPerSample ?fmt \<noteq> 32"
    by (simp_all add: stereo_format_def)
  have h4: "0 < (1::nat)" "1 * unat (nChannels ?fmt) < 2 ^ 32"
    "length [7, 7 :: float32] = 1 * unat (nChannels ?fmt)"
    by (simp_all add: stereo_format_def)
  have n: "unat (nChannels ?fmt) = 2"
    by (simp add: stereo_format_def)
  have r: "replicate (1 * unat (nChannels ?fmt)) (0 :: float32) = [0, 0]"
    unfolding n by (simp add: numeral_2_eq_2)
  from initialize_format_validation [of WasapiCapture_new ?env 24 ?fmt 1 "[7, 7]" "[1, 2, 3, 4, 5, 6]"]
  have "\<not> fst (WasapiCapture_initialize ?env WasapiCapture_new)"
    and "convertToFloat32 (Some ?fmt) (Some [1, 2, 3, 4, 5, 6]) (Some [7, 7]) 1
           = Some (replicate (1 * unat (nChannels ?fmt)) 0)"
    using h1 h2 h3 h4 by blast+
  then show ?thesis using h1 h2 h3 by (simp only: r) simp
qed

text \<open>
  The claim as stated fails: a device negotiating 24-bit PCM stereo initializes.
\<close>

theorem initialize_accepts_pcm24_counterexample:
  "wFormatTag (GetMixFormat_format pcm24_env) = WAVE_FORMAT_PCM \<and>
   wBitsPerSample (GetMixFormat_format pcm24_env) = 24 \<and>
   fst (WasapiCapture_initialize pcm24_env WasapiCapture_new)"
  by (simp add: initialize_ok_iff WasapiCapture_new_def InitEnv_succeeds_def pcm24_env_def
      device_ok_def stereo_format_def)

section \<open>Callback registration: idempotence and duplicates\<close>

text \<open>
  Claim C5, as the code has it. Registering a null pointer changes nothing; so does
  unregistering a pointer that is not registered, and unregistering twice is the same
  as once. Registering a non-null pointer appends it, also when it is registered
  already: after two registrations a snapshot is forwarded to it twice, and one
  unregistration removes every entry.
\<close>

theorem registration_idempotence:
  "WasapiCapture_registerCallback None c = c \<and>
   AudioEngine_registerCallback None e = e \<and>
   (cb \<notin> set (m_callbacks c) \<longrightarrow> WasapiCapture_unregisterCallback cb c = c) \<and>
   (cb \<notin> set (m_callbacks_engine e) \<longrightarrow> AudioEngine_unregisterCallback cb e = e) \<and>
   WasapiCapture_unregisterCallback cb (WasapiCapture_unregisterCallback cb c)
     = WasapiCapture_unregisterCallback cb c \<and>
   AudioEngine_unregisterCallback cb (AudioEngine_unregisterCallback cb e)
     = AudioEngine_unregisterCallback cb e \<and>
   (cb \<noteq> None \<longrightarrow>
      m_callbacks (WasapiCapture_registerCallback cb c) = m_callbacks c @ [cb] \<and>
      m_callbacks_engine (AudioEngine_registerCallback cb e) = m_callbacks_engine e @ [cb] \<and>
      forwardMeterData (AudioEngine_registerCallback cb (AudioEngine_registerCallback cb e)) snapshot
        = forwardMeterData e snapshot @ [OnMeterData (the cb) snapshot, OnMeterData (the cb) snapshot] \<and>
      cb \<notin> set (m_callbacks (WasapiCapture_unregisterCallback cb
                    (WasapiCapture_registerCallback cb (WasapiCapture_registerCallback cb c)))) \<and>
      cb \<notin> set (m_callbacks_engine (AudioEngine_unregisterCallback cb
                    (AudioEngine_registerCallback cb (AudioEngine_registerCallback cb e)))))"
  by (auto simp: WasapiCapture_registerCallback_def AudioEngine_registerCallback_def
      WasapiCapture_unregisterCallback_def AudioEngine_unregisterCallback_def forwardMeterData_def)

theorem registration_idempotence_witness:
  "Some MeteringCallbackObj \<notin> set (m_callbacks WasapiCapture_new) \<and>
   WasapiCapture_unregisterCallback (Some MeteringCallbackObj) WasapiCapture_new = WasapiCapture_new \<and>
   Some MeteringCallbackObj \<notin> set (m_callbacks_engine AudioEngine_new) \<and>
   AudioEngine_unregisterCallback (Some MeteringCallbackObj) AudioEngine_new = AudioEngine_new \<and>
   observer \<noteq> None \<and>
   m_callbacks (WasapiCapture_registerCallback observer
                  (WasapiCapture_registerCallback observer WasapiCapture_new)) = [observer, observer]"
  using registration_idempotence [of WasapiCapture_new AudioEngine_new "Some MeteringCallbackObj"]
    registration_idempotence [of "WasapiCapture_registerCallback observer WasapiCapture_new"
      AudioEngine_new observer]
    registration_idempotence [of WasapiCapture_new AudioEngine_new observer]
  by (simp add: WasapiCapture_new_def AudioEngine_new_def observer_def)

text \<open>
  The claim as stated fails: registering an observer twice is not the same as
  registering it once.
\<close>

theorem register_twice_counterexample:
  "WasapiCapture_registerCallback observer (WasapiCapture_registerCallback observer WasapiCapture_new)
     \<noteq> WasapiCapture_registerCallback observer WasapiCapture_new \<and>
   AudioEngine_registerCallback observer (AudioEngine_registerCallback observer AudioEngine_new)
     \<noteq> AudioEngine_registerCallback observer AudioEngine_new"
proof -
  have "m_callbacks (WasapiCapture_registerCallback observer
          (WasapiCapture_registerCallback observer WasapiCapture_new))
        \<noteq> m_callbacks (WasapiCapture_registerCallback observer WasapiCapture_new)"
    by (simp add: WasapiCapture_registerCallback_def observer_def)
  moreover have "m_callbacks_engine (AudioEngine_registerCallback observer
          (AudioEngine_registerCallback observer AudioEngine_new))
        \<noteq> m_callbacks_engine (AudioEngine_registerCallback observer AudioEngine_new)"
    by (simp add: AudioEngine_registerCallback_def observer_def)
  ultimately show ?thesis by metis
qed

section \<open>The capture loop: buffer protocol and failed acquisitions\<close>

lemma protocol_deliver:
  "n \<noteq> 0 \<Longrightarrow> buffer_protocol (Some n) (map Deliver ds @ evs) = buffer_protocol (Some n) evs"
  by (induction ds) simp_all

text \<open>
  Claim C8. Over any run of the capture loop, the calls on the capture client follow
  the buffer protocol: every successful \<open>GetBuffer\<close> is followed by exactly one
  \<open>ReleaseBuffer\<close> with the frame count acquired before the next \<open>GetBuffer\<close>, nothing
  is released that is not held, an empty buffer is released without a delivery to any
  observer, and no buffer is held when the loop leaves.
\<close>

theorem captureThread_buffer_protocol:
  "buffer_protocol None (snd (captureThread e its))"
proof (induction its arbitrary: e)
  case Nil
  show ?case by simp
next
  case (Cons it its)
  show ?case
    by (simp add: Cons protocol_deliver case_prod_unfold)
qed

theorem captureThread_buffer_protocol_witness:
  "buffer_protocol None (snd (captureThread metering_engine [buffer_error_pass, silent_pass]))"
  by (rule captureThread_buffer_protocol)

lemma polls_deliver: "polls (map Deliver ds @ evs) = polls evs"
  by (induction ds) simp_all

lemma polls_passes: "polls (snd (captureThread e its)) = passes its"
proof (induction its arbitrary: e)
  case Nil
  show ?case by simp
next
  case (Cons it its)
  show ?case
    by (simp add: Cons polls_deliver case_prod_unfold)
qed

lemma passes_all:
  "\<forall>it \<in> set its. it_capturing it \<and> it_wait it \<noteq> WAIT_OBJECT_0 \<Longrightarrow> passes its = length its"
  by (induction its) simp_all

text \<open>
  Claim C9. A pass in which \<open>GetBuffer\<close> fails, for whatever failure code, leaves the
  engine as it was, delivers nothing and releases nothing, and the loop goes on with
  the next pass. The loop polls the device once in every pass up to the first one that
  finds the capturing flag clear or the stop event signalled; while the stop is not
  raised, no pass is left out.
\<close>

theorem captureThread_absorbs_failed_acquisition:
  "(it_capturing it \<and> it_wait it \<noteq> WAIT_OBJECT_0 \<and> FAILED (it_hr it) \<longrightarrow>
      fst (captureThread e (it # its)) = fst (captureThread e its) \<and>
      snd (captureThread e (it # its))
        = GetBuffer (it_hr it) (it_numFramesAvailable it) # snd (captureThread e its)) \<and>
   polls (snd (captureThread e its)) = passes its \<and>
   ((\<forall>it \<in> set its. it_capturing it \<and> it_wait it \<noteq> WAIT_OBJECT_0) \<longrightarrow>
      polls (snd (captureThread e its)) = length its)"
  by (simp add: polls_passes passes_all case_prod_unfold)

lemma buffer_error_failed: "FAILED AUDCLNT_E_BUFFER_ERROR"
  by (simp add: FAILED_def AUDCLNT_E_BUFFER_ERROR_def)

theorem captureThread_absorbs_failed_acquisition_witness:
  "it_capturing buffer_error_pass \<and> it_wait buffer_error_pass \<noteq> WAIT_OBJECT_0 \<and>
   FAILED (it_hr buffer_error_pass) \<and>
   it_capturing silent_pass \<and> it_wait silent_pass \<noteq> WAIT_OBJECT_0 \<and>
   fst (captureThread metering_engine [buffer_error_pass]) = metering_engine \<and>
   snd (captureThread metering_engine [buffer_error_pass]) = [GetBuffer AUDCLNT_E_BUFFER_ERROR 0] \<and>
   polls (snd (captureThread metering_engine [buffer_error_pass, silent_pass])) = 2"
proof -
  have h: "it_capturing buffer_error_pass" "it_wait buffer_error_pass \<noteq> WAIT_OBJECT_0"
    "FAILED (it_hr buffer_error_pass)" "it_hr buffer_error_pass = AUDCLNT_E_BUFFER_ERROR"
    "it_numFramesAvailable buffer_error_pass = 0"
    "it_capturing silent_pass" "it_wait silent_pass \<noteq> WAIT_OBJECT_0"
    by (simp_all add: buffer_error_pass_def silent_pass_def buffer_error_failed)
  show ?thesis
    using captureThread_absorbs_failed_acquisition [of buffer_error_pass metering_engine "[]"]
      captureThread_absorbs_failed_acquisition [of buffer_error_pass metering_engine
        "[buffer_error_pass, silent_pass]"] h
    by simp
qed

section \<open>The Metering Adapter: snapshots\<close>

lemma forwardMeterData_set:
  "d \<in> set (forwardMeterData e snapshot) \<longleftrightarrow>
     (\<exists>cb. Some cb \<in> set (m_callbacks_engine e) \<and> d = OnMeterData cb snapshot)"
  by (auto simp: forwardMeterData_def split: option.splits)

lemma onAudioData_meter:
  "OnMeterData cb snapshot \<in> set (onAudioData e c buf n fmt) \<Longrightarrow>
     c = MeteringCallbackObj \<and> 0 < n \<and> snapshot = MeteringCallback_snapshot buf n fmt"
  by (auto simp: onAudioData_def MeteringCallback_onAudioData_def forwardMeterData_set
      split: callback_id.splits if_splits)

lemma processAudioData_meter:
  assumes "OnMeterData cb snapshot \<in> set (snd (processAudioData pData n flags e))"
  shows "snapshot = MeteringCallback_snapshot
           (m_floatBuffer (m_capture (fst (processAudioData pData n flags e)))) n
           (m_format (m_capture e))"
  using assms
  by (auto simp: processAudioData_def Let_def split: option.splits if_splits dest!: onAudioData_meter)

lemma captureThread_meter:
  "Deliver (OnMeterData cb snapshot) \<in> set (snd (captureThread e its)) \<Longrightarrow>
     timestampMs snapshot = 0"
proof (induction its arbitrary: e)
  case Nil
  then show ?case by simp
next
  case (Cons it its)
  then show ?case
    by (auto simp: case_prod_unfold MeteringCallback_snapshot_def split: if_splits
        dest!: processAudioData_meter)
qed

text \<open>
  Claim C10. The snapshot the metering adapter builds has \<open>timestampMs = 0\<close>, and so has
  every snapshot it forwards to an observer: from one call of \<open>onAudioData\<close>, from the
  processing of one buffer, and over a whole run of the capture loop.
\<close>

theorem snapshot_timestamp_zero:
  "timestampMs (MeteringCallback_snapshot buf n fmt) = 0 \<and>
   (OnMeterData cb snapshot \<in> set (MeteringCallback_onAudioData e buffer n fmt) \<longrightarrow>
      timestampMs snapshot = 0) \<and>
   (OnMeterData cb snapshot \<in> set (snd (processAudioData pData n flags e)) \<longrightarrow>
      timestampMs snapshot = 0) \<and>
   (Deliver (OnMeterData cb snapshot) \<in> set (snd (captureThread e its)) \<longrightarrow>
      timestampMs snapshot = 0)"
  by (auto simp: captureThread_meter MeteringCallback_snapshot_def
      MeteringCallback_onAudioData_def forwardMeterData_set
      split: option.splits if_splits dest!: processAudioData_meter)

lemma metering_engine_facts:
  "channelCount (m_format (m_capture metering_engine)) = 2"
  "Some MeteringCallbackObj \<in> set (m_callbacks (m_capture metering_engine))"
  "Some (ExternalCallback 0) \<in> set (m_callbacks_engine metering_engine)"
  by (simp_all add: metering_engine_def WasapiCapture_registerCallback_def capturing_capture_def
      WasapiCapture_start_def start_ok_def initialized_capture_eq Let_def observer_def)

lemma length_resize: "length (resize n buf) = n"
  by (simp add: resize_def)

lemma f32_value_zero: "f32_value 0 = 0"
  by (simp add: f32_value_def f32_significand_def f32_exponent_def f32_fraction_def)

lemma channel_samples_zero:
  assumes "ch < channels"
  shows "channel_samples (replicate (n * channels) 0) n channels ch = replicate n 0"
proof -
  have "frame * channels + ch < n * channels" if "frame < n" for frame
  proof -
    have "frame * channels + ch < Suc frame * channels" using assms by simp
    also have "\<dots> \<le> n * channels" using that by (simp add: Suc_leI mult_le_mono1 del: mult_Suc)
    finally show ?thesis .
  qed
  then have "map (\<lambda>frame. of_rat (f32_value (replicate (n * channels) 0 ! (frame * channels + ch)))) [0..<n]
               = map (\<lambda>frame. 0 :: real) [0..<n]"
    by (intro map_cong refl) (simp add: f32_value_zero)
  then show ?thesis by (simp add: channel_samples_def map_replicate_const)
qed

lemma peak_level_zero: "peak_level (replicate n 0) = 0"
proof -
  have "fold max (replicate n (0 :: real)) 0 = 0" by (induction n) simp_all
  then show ?thesis by (simp add: peak_level_def clamp01_def)
qed

lemma rms_level_zero: "rms_level (replicate n 0) = 0"
  by (simp add: rms_level_def clamp01_def sum_list_replicate)

lemma meter_process_zero:
  assumes "channelCount fmt = 1 \<or> channelCount fmt = 2"
    and "\<And>k. level (replicate k 0) = 0"
  shows "meter_process level (replicate (n * channelCount fmt) 0) n fmt = \<lparr>left = 0, right = 0\<rparr>"
proof -
  have c1: "channel_samples (replicate n 0) n (Suc 0) 0 = replicate n 0"
    using channel_samples_zero [of 0 1 n] by simp
  show ?thesis
    using assms(1) by (auto simp: meter_process_def Let_def channel_samples_zero c1 assms(2))
qed

lemma snapshot_zero:
  assumes "channelCount fmt = 1 \<or> channelCount fmt = 2"
  shows "MeteringCallback_snapshot (replicate (n * channelCount fmt) 0) n fmt
           = \<lparr>peak = \<lparr>left = 0, right = 0\<rparr>, rms = \<lparr>left = 0, right = 0\<rparr>, timestampMs = 0\<rparr>"
  by (simp add: MeteringCallback_snapshot_def PeakMeter_process_def RmsMeter_process_def
      meter_process_zero [OF assms] peak_level_zero rms_level_zero)

lemma processAudioData_silent:
  assumes "flags AND AUDCLNT_BUFFERFLAGS_SILENT \<noteq> 0" "0 < n"
  shows "m_floatBuffer (m_capture (fst (processAudioData (Some bytes) n flags e)))
           = replicate (n * channelCount (m_format (m_capture e))) 0"
    and "processAudioData (Some bytes) n flags e = processAudioData (Some bytes') n flags e"
  using assms by (simp_all add: processAudioData_def Let_def length_resize samplesPerFrame_def)

lemma processAudioData_silent_delivery:
  assumes "flags AND AUDCLNT_BUFFERFLAGS_SILENT \<noteq> 0" and "0 < n"
    and "channelCount (m_format (m_capture e)) = 1 \<or> channelCount (m_format (m_capture e)) = 2"
    and "Some MeteringCallbackObj \<in> set (m_callbacks (m_capture e))"
    and "Some cb \<in> set (m_callbacks_engine e)"
  shows "OnMeterData cb \<lparr>peak = \<lparr>left = 0, right = 0\<rparr>, rms = \<lparr>left = 0, right = 0\<rparr>,
                          timestampMs = 0\<rparr>
           \<in> set (snd (processAudioData (Some bytes) n flags e))"
proof -
  let ?buf = "replicate (n * channelCount (m_format (m_capture e))) (0 :: float32)"
  let ?e' = "e\<lparr>m_capture := (m_capture e)\<lparr>m_floatBuffer := ?buf\<rparr>\<rparr>"
  have "OnMeterData cb (MeteringCallback_snapshot ?buf n (m_format (m_capture e)))
          \<in> set (onAudioData ?e' MeteringCallbackObj ?buf n (m_format (m_capture e)))"
    using assms(5,2)
    by (simp add: onAudioData_def MeteringCallback_onAudioData_def forwardMeterData_set)
  then show ?thesis
    using assms(4,1,2) unfolding snapshot_zero [OF assms(3), of n]
    by (simp add: processAudioData_def Let_def length_resize samplesPerFrame_def)
      (rule bexI [of _ "Some MeteringCallbackObj"], simp_all)
qed

text \<open>
  Claim C2. For a buffer of at least one frame flagged as silent, with one or two
  channels, \<open>processAudioData\<close> leaves the float buffer holding one zero per sample,
  whatever the bytes of the device buffer and whatever the wave format (the converter
  has no part in it), and the snapshot of that buffer has peak and RMS levels 0 for
  both channels; every snapshot forwarded for the buffer has these levels, and an
  observer registered on the facade receives it when the adapter is registered.
\<close>

theorem silent_buffer_zero_levels:
  assumes "flags AND AUDCLNT_BUFFERFLAGS_SILENT \<noteq> 0" and "0 < n"
    and "channelCount (m_format (m_capture e)) = 1 \<or> channelCount (m_format (m_capture e)) = 2"
  shows "m_floatBuffer (m_capture (fst (processAudioData (Some bytes) n flags e)))
           = replicate (n * channelCount (m_format (m_capture e))) 0 \<and>
         processAudioData (Some bytes) n flags e = processAudioData (Some bytes') n flags e \<and>
         MeteringCallback_snapshot (replicate (n * channelCount (m_format (m_capture e))) 0) n
             (m_format (m_capture e))
           = \<lparr>peak = \<lparr>left = 0, right = 0\<rparr>, rms = \<lparr>left = 0, right = 0\<rparr>, timestampMs = 0\<rparr> \<and>
         (OnMeterData cb snapshot \<in> set (snd (processAudioData (Some bytes) n flags e)) \<longrightarrow>
            peak snapshot = \<lparr>left = 0, right = 0\<rparr> \<and> rms snapshot = \<lparr>left = 0, right = 0\<rparr>) \<and>
         (Some MeteringCallbackObj \<in> set (m_callbacks (m_capture e)) \<and>
          Some cb \<in> set (m_callbacks_engine e) \<longrightarrow>
            OnMeterData cb \<lparr>peak = \<lparr>left = 0, right = 0\<rparr>, rms = \<lparr>left = 0, right = 0\<rparr>,
                            timestampMs = 0\<rparr>
              \<in> set (snd (processAudioData (Some bytes) n flags e)))"
proof -
  note s = processAudioData_silent [OF assms(1,2)]
  note z = snapshot_zero [OF assms(3), of n]
  have m: "peak snapshot = \<lparr>left = 0, right = 0\<rparr> \<and> rms snapshot = \<lparr>left = 0, right = 0\<rparr>"
    if "OnMeterData cb snapshot \<in> set (snd (processAudioData (Some bytes) n flags e))"
    using processAudioData_meter [OF that] by (simp add: s(1) z)
  note d = processAudioData_silent_delivery [OF assms]
  show ?thesis using s z m d by blast
qed

lemma silent_flag: "AUDCLNT_BUFFERFLAGS_SILENT AND AUDCLNT_BUFFERFLAGS_SILENT \<noteq> 0"
  by (simp add: AUDCLNT_BUFFERFLAGS_SILENT_def)

theorem silent_buffer_zero_levels_witness:
  "AUDCLNT_BUFFERFLAGS_SILENT AND AUDCLNT_BUFFERFLAGS_SILENT \<noteq> 0 \<and> 0 < (1::nat) \<and>
   channelCount (m_format (m_capture metering_engine)) = 2 \<and>
   Some MeteringCallbackObj \<in> set (m_callbacks (m_capture metering_engine)) \<and>
   Some (ExternalCallback 0) \<in> set (m_callbacks_engine metering_engine) \<and>
   m_floatBuffer (m_capture (fst (processAudioData (Some [1, 2, 3, 4]) 1
      AUDCLNT_BUFFERFLAGS_SILENT metering_engine))) = [0, 0] \<and>
   processAudioData (Some [1, 2, 3, 4]) 1 AUDCLNT_BUFFERFLAGS_SILENT metering_engine
     = processAudioData (Some [0, 0, 0, 0]) 1 AUDCLNT_BUFFERFLAGS_SILENT metering_engine \<and>
   OnMeterData (ExternalCallback 0)
       \<lparr>peak = \<lparr>left = 0, right = 0\<rparr>, rms = \<lparr>left = 0, right = 0\<rparr>, timestampMs = 0\<rparr>
     \<in> set (snd (processAudioData (Some [1, 2, 3, 4]) 1 AUDCLNT_BUFFERFLAGS_SILENT metering_engine))"
proof -
  have n: "0 < (1::nat)" by simp
  have c: "channelCount (m_format (m_capture metering_engine)) = 1 \<or>
           channelCount (m_format (m_capture metering_engine)) = 2"
    by (simp add: metering_engine_facts)
  have r: "replicate 2 (0 :: float32) = [0, 0]"
    by (simp add: numeral_2_eq_2)
  note t = silent_buffer_zero_levels [OF silent_flag n c, of "[1, 2, 3, 4]" "[0, 0, 0, 0]"
      "ExternalCallback 0"]
  from t have "m_floatBuffer (m_capture (fst (processAudioData (Some [1, 2, 3, 4]) 1
      AUDCLNT_BUFFERFLAGS_SILENT metering_engine)))
        = replicate (1 * channelCount (m_format (m_capture metering_engine))) 0"
    by blast
  then have b: "m_floatBuffer (m_capture (fst (processAudioData (Some [1, 2, 3, 4]) 1
      AUDCLNT_BUFFERFLAGS_SILENT metering_engine))) = [0, 0]"
    by (simp add: metering_engine_facts(1) r)
  from t have e: "processAudioData (Some [1, 2, 3, 4]) 1 AUDCLNT_BUFFERFLAGS_SILENT metering_engine
     = processAudioData (Some [0, 0, 0, 0]) 1 AUDCLNT_BUFFERFLAGS_SILENT metering_engine"
    by blast
  from t metering_engine_facts(2,3)
  have d: "OnMeterData (ExternalCallback 0)
       \<lparr>peak = \<lparr>left = 0, right = 0\<rparr>, rms = \<lparr>left = 0, right = 0\<rparr>, timestampMs = 0\<rparr>
     \<in> set (snd (processAudioData (Some [1, 2, 3, 4]) 1 AUDCLNT_BUFFERFLAGS_SILENT metering_engine))"
    by blast
  show ?thesis
    using silent_flag n metering_engine_facts b e d by blast
qed

lemma silent_pass_trace:
  "snd (captureThread e [silent_pass])
     = GetBuffer S_OK 1 #
       map Deliver (snd (processAudioData (Some [0, 0, 0, 0]) 1 AUDCLNT_BUFFERFLAGS_SILENT e))
       @ [ReleaseBuffer 1]"
  by (simp add: silent_pass_def case_prod_unfold)

theorem snapshot_timestamp_zero_witness:
  "OnMeterData (ExternalCallback 0)
       (MeteringCallback_snapshot [0, 0] 1 \<lparr>sampleRate = 48000, channelCount = 2\<rparr>)
     \<in> set (MeteringCallback_onAudioData metering_engine (Some [0, 0]) 1
              \<lparr>sampleRate = 48000, channelCount = 2\<rparr>) \<and>
   timestampMs (MeteringCallback_snapshot [0, 0] 1 \<lparr>sampleRate = 48000, channelCount = 2\<rparr>) = 0 \<and>
   OnMeterData (ExternalCallback 0)
       \<lparr>peak = \<lparr>left = 0, right = 0\<rparr>, rms = \<lparr>left = 0, right = 0\<rparr>, timestampMs = 0\<rparr>
     \<in> set (snd (processAudioData (Some [0, 0, 0, 0]) 1 AUDCLNT_BUFFERFLAGS_SILENT metering_engine)) \<and>
   Deliver (OnMeterData (ExternalCallback 0)
       \<lparr>peak = \<lparr>left = 0, right = 0\<rparr>, rms = \<lparr>left = 0, right = 0\<rparr>, timestampMs = 0\<rparr>)
     \<in> set (snd (captureThread metering_engine [silent_pass])) \<and>
   timestampMs \<lparr>peak = \<lparr>left = 0, right = 0\<rparr>, rms = \<lparr>left = 0, right = 0\<rparr>, timestampMs = 0\<rparr> = 0"
proof -
  let ?fmt = "\<lparr>sampleRate = 48000, channelCount = 2\<rparr>"
  let ?zs = "\<lparr>peak = \<lparr>left = 0, right = 0\<rparr>, rms = \<lparr>left = 0, right = 0\<rparr>, timestampMs = 0 :: int\<rparr>"
  have a: "OnMeterData (ExternalCallback 0) (MeteringCallback_snapshot [0, 0] 1 ?fmt)
             \<in> set (MeteringCallback_onAudioData metering_engine (Some [0, 0]) 1 ?fmt)"
    by (simp add: MeteringCallback_onAudioData_def forwardMeterData_set metering_engine_facts)
  have c: "channelCount (m_format (m_capture metering_engine)) = 1 \<or>
           channelCount (m_format (m_capture metering_engine)) = 2"
    by (simp add: metering_engine_facts)
  have b: "OnMeterData (ExternalCallback 0) ?zs
             \<in> set (snd (processAudioData (Some [0, 0, 0, 0]) 1 AUDCLNT_BUFFERFLAGS_SILENT
                           metering_engine))"
    by (rule processAudioData_silent_delivery [OF silent_flag _ c metering_engine_facts(2,3)]) simp
  then have d: "Deliver (OnMeterData (ExternalCallback 0) ?zs)
                  \<in> set (snd (captureThread metering_engine [silent_pass]))"
    unfolding silent_pass_trace by simp
  from snapshot_timestamp_zero [of "[0, 0]" 1 ?fmt "ExternalCallback 0"
      "MeteringCallback_snapshot [0, 0] 1 ?fmt" metering_engine "Some [0, 0]"]
  have t1: "timestampMs (MeteringCallback_snapshot [0, 0] 1 ?fmt) = 0" by blast
  from snapshot_timestamp_zero [of "[0, 0]" 1 ?fmt "ExternalCallback 0" ?zs metering_engine
      "Some [0, 0]" "Some [0, 0, 0, 0]" AUDCLNT_BUFFERFLAGS_SILENT "[silent_pass]"] d
  have t2: "timestampMs ?zs = 0" by blast
  show ?thesis using a b d t1 t2 by blast
qed

section \<open>Floating point: decoding, rounding and scaling by a power of two\<close>

lemma unat_pack:
  "b < 2147483648 \<Longrightarrow> unat (f32_pack s b) = f32_sign_bit s + b"
  unfolding f32_pack_def by (subst unat_of_nat) (simp add: f32_sign_bit_def)

lemma fields_bits:
  assumes "f < 8388608" "X < 256"
  shows "f32_sign (f32_pack s (X * 8388608 + f)) = s"
    and "f32_exponent (f32_pack s (X * 8388608 + f)) = X"
    and "f32_fraction (f32_pack s (X * 8388608 + f)) = f"
proof -
  have b: "X * 8388608 + f < 2147483648" using assms by simp
  note u = unat_pack [OF b, of s]
  define c :: nat where "c = (if s then 1 else 0)"
  have sb: "f32_sign_bit s = c * 2147483648" by (simp add: c_def f32_sign_bit_def)
  have "f32_sign_bit s + (X * 8388608 + f) = (c * 256 + X) * 8388608 + f"
    by (simp add: sb algebra_simps)
  with u have u1: "unat (f32_pack s (X * 8388608 + f)) = (c * 256 + X) * 8388608 + f"
    by (simp only:)
  from u have u2: "unat (f32_pack s (X * 8388608 + f)) = c * 2147483648 + (X * 8388608 + f)"
    by (simp only: sb)
  show "f32_sign (f32_pack s (X * 8388608 + f)) = s"
    unfolding f32_sign_def u2 using b by (simp add: c_def)
  have "((c * 256 + X) * 8388608 + f) div 8388608 = c * 256 + X"
    using assms(1) by (simp only: div_mult_self3 div_less)
  moreover have "(c * 256 + X) mod 256 = X"
    using assms(2) by (simp only: mod_mult_self3 mod_less)
  ultimately show "f32_exponent (f32_pack s (X * 8388608 + f)) = X"
    unfolding f32_exponent_def u1 by simp
  have "((c * 256 + X) * 8388608 + f) mod 8388608 = f"
    using assms(1) by (simp only: mod_mult_self3 mod_less)
  then show "f32_fraction (f32_pack s (X * 8388608 + f)) = f"
    unfolding f32_fraction_def u1 by simp
qed

text \<open>A normal number: significand q with 24 bits, unit in the last place 2^(E - 149).\<close>

lemma fields_normal:
  assumes "8388608 \<le> q" "q < 16777216" "E < 254"
  shows "f32_sign (f32_pack s (E * 8388608 + q)) = s"
    and "f32_exponent (f32_pack s (E * 8388608 + q)) = E + 1"
    and "f32_fraction (f32_pack s (E * 8388608 + q)) = q - 8388608"
proof -
  have e: "E * 8388608 + q = (E + 1) * 8388608 + (q - 8388608)"
    using assms(1) by (simp add: algebra_simps)
  have f: "q - 8388608 < (8388608::nat)" using assms by simp
  have X: "E + 1 < 256" using assms by simp
  show "f32_sign (f32_pack s (E * 8388608 + q)) = s"
    unfolding e by (rule fields_bits(1) [OF f X])
  show "f32_exponent (f32_pack s (E * 8388608 + q)) = E + 1"
    unfolding e by (rule fields_bits(2) [OF f X])
  show "f32_fraction (f32_pack s (E * 8388608 + q)) = q - 8388608"
    unfolding e by (rule fields_bits(3) [OF f X])
qed

lemma decode_normal:
  assumes "8388608 \<le> q" "q < 16777216" "E < 254"
  shows "f32_significand (f32_pack s (E * 8388608 + q)) = q"
    and "f32_scale (f32_pack s (E * 8388608 + q)) = int E - 149"
    and "\<not> f32_is_nan (f32_pack s (E * 8388608 + q))"
    and "\<not> f32_is_inf (f32_pack s (E * 8388608 + q))"
  using assms
  by (simp_all add: f32_significand_def f32_scale_def f32_is_nan_def f32_is_inf_def
      fields_normal)

lemma round_shift_exact: "round_shift (q * 2 ^ k) k = q"
  by (simp add: round_shift_def)

lemma floorlog_normal:
  assumes "8388608 \<le> q" "q < 16777216"
  shows "floorlog 2 q = 24"
proof (rule antisym)
  show "floorlog 2 q \<le> 24" using assms(2) by (simp add: floorlog_le_iff)
  show "24 \<le> floorlog 2 q" using assms(1) by (intro floorlog_geI) simp_all
qed

lemma f32_round_normal:
  assumes q: "8388608 \<le> q" "q < 16777216"
    and lo: "- 149 \<le> e + int k" and hi: "e + int k < 105"
  shows "f32_round s (q * 2 ^ k) e = f32_pack s (nat (e + int k + 149) * 8388608 + q)"
proof -
  have q0: "0 < q" using q by simp
  have fl: "floorlog 2 (q * 2 ^ k) = 24 + k"
    using q0 by (simp add: floorlog_normal [OF q])
  have u: "max (int (floorlog 2 (q * 2 ^ k)) + e - 24) (- 149) = e + int k"
    using lo by (simp add: fl)
  have sel: "(if e + int k \<le> e then q * 2 ^ k * 2 ^ nat (e - (e + int k))
              else round_shift (q * 2 ^ k) (nat (e + int k - e))) = q"
    by (simp add: round_shift_exact)
  have b: "\<not> 255 * 2 ^ 23 \<le> nat (e + int k + 149) * 2 ^ 23 + q"
    using q hi lo by simp
  show ?thesis
    unfolding f32_round_def Let_def u sel using q0 b by simp
qed

lemma f32_value_normal:
  assumes "8388608 \<le> q" "q < 16777216" "E < 254"
  shows "f32_value (f32_pack s (E * 8388608 + q))
           = (if s then - 1 else 1) * of_nat q * 2 powi (int E - 149)"
  unfolding f32_value_def
  by (simp only: decode_normal [OF assms] fields_normal [OF assms])

lemma f32_mul_pow2:
  assumes q: "8388608 \<le> q" "q < 16777216" and E: "E < 254" and Ec: "Ec < 254"
    and lo: "126 \<le> E + Ec" and hi: "E + Ec < 380"
  shows "f32_mul (f32_pack s (E * 8388608 + q)) (f32_pack False (Ec * 8388608 + 8388608))
           = f32_pack s ((E + Ec - 126) * 8388608 + q)"
proof -
  have c: "(8388608::nat) \<le> 8388608" "(8388608::nat) < 16777216" by simp_all
  note da = decode_normal [OF q E, of s] fields_normal(1) [OF q E, of s]
  note db = decode_normal [OF c Ec, of False] fields_normal(1) [OF c Ec, of False]
  have "f32_mul (f32_pack s (E * 8388608 + q)) (f32_pack False (Ec * 8388608 + 8388608))
          = f32_round s (q * 2 ^ 23) (int E - 149 + (int Ec - 149))"
    unfolding f32_mul_def Let_def by (simp add: da db)
  also have "\<dots> = f32_pack s (nat (int E - 149 + (int Ec - 149) + int 23 + 149) * 8388608 + q)"
    using lo hi by (intro f32_round_normal [OF q]) simp_all
  also have "nat (int E - 149 + (int Ec - 149) + int 23 + 149) = E + Ec - 126"
    using lo by simp
  finally show ?thesis .
qed

lemma scale_int16_pack: "scale_int16 = f32_pack False (111 * 8388608 + 8388608)"
  by (simp add: scale_int16_def f32_pack_def f32_sign_bit_def)

lemma scale_int32_pack: "scale_int32 = f32_pack False (95 * 8388608 + 8388608)"
  by (simp add: scale_int32_def f32_pack_def f32_sign_bit_def)

lemma f32_mul_scale_value:
  assumes q: "8388608 \<le> q" "q < 16777216" and E: "126 \<le> E" "E < 254"
  shows "f32_value (f32_mul (f32_pack s (E * 8388608 + q)) scale_int16)
           = f32_value (f32_pack s (E * 8388608 + q)) / 32768"
    and "f32_value (f32_mul (f32_pack s (E * 8388608 + q)) scale_int32)
           = f32_value (f32_pack s (E * 8388608 + q)) / 2147483648"
proof -
  have m16: "f32_mul (f32_pack s (E * 8388608 + q)) scale_int16
               = f32_pack s ((E - 15) * 8388608 + q)"
    unfolding scale_int16_pack using E by (subst f32_mul_pow2 [OF q]) simp_all
  have m32: "f32_mul (f32_pack s (E * 8388608 + q)) scale_int32
               = f32_pack s ((E - 31) * 8388608 + q)"
    unfolding scale_int32_pack using E by (subst f32_mul_pow2 [OF q]) simp_all
  have p16: "(2::rat) powi (int (E - 15) - 149) = 2 powi (int E - 149) / 32768"
    using E by (simp add: power_int_diff)
  have p32: "(2::rat) powi (int (E - 31) - 149) = 2 powi (int E - 149) / 2147483648"
    using E by (simp add: power_int_diff)
  have E16: "E - 15 < 254" and E32: "E - 31 < 254" using E by simp_all
  show "f32_value (f32_mul (f32_pack s (E * 8388608 + q)) scale_int16)
           = f32_value (f32_pack s (E * 8388608 + q)) / 32768"
    unfolding m16 f32_value_normal [OF q E16] f32_value_normal [OF q E(2)] p16 by simp
  show "f32_value (f32_mul (f32_pack s (E * 8388608 + q)) scale_int32)
           = f32_value (f32_pack s (E * 8388608 + q)) / 2147483648"
    unfolding m32 f32_value_normal [OF q E32] f32_value_normal [OF q E(2)] p32 by simp
qed

lemma round_shift_bounds:
  "m div 2 ^ k \<le> round_shift m k \<and> round_shift m k \<le> m div 2 ^ k + 1"
  by (simp add: round_shift_def Let_def)

text \<open>A non-zero integer of at most 32 bits converts to a normal number.\<close>

lemma f32_round_int_normal:
  assumes m: "0 < m" "m \<le> 2147483648"
  shows "\<exists>E q. 126 \<le> E \<and> E \<le> 158 \<and> 8388608 \<le> q \<and> q < 16777216 \<and>
           f32_round s m 0 = f32_pack s (E * 8388608 + q)"
proof -
  define n where "n = floorlog 2 m"
  have bnd: "2 ^ (n - 1) \<le> m" "m < 2 ^ n"
    using floorlog_bounds [of m 2] m(1) by (simp_all add: n_def)
  have "floorlog 2 m \<noteq> 0" using m(1) by (simp add: floorlog_eq_zero_iff)
  then have n1: "1 \<le> n" by (simp add: n_def)
  have "floorlog 2 m \<le> 32" using m(2) by (simp add: floorlog_le_iff)
  then have n32: "n \<le> 32" by (simp add: n_def)
  show ?thesis
  proof (cases "n \<le> 24")
    case True
    define q where "q = m * 2 ^ (24 - n)"
    have "2 ^ (n - 1) * 2 ^ (24 - n) \<le> q" unfolding q_def using bnd(1) by simp
    moreover have "(2::nat) ^ (n - 1) * 2 ^ (24 - n) = 2 ^ 23"
      using True n1 by (simp add: power_add [symmetric])
    ultimately have q1: "8388608 \<le> q" by simp
    have "q < 2 ^ n * 2 ^ (24 - n)" unfolding q_def using bnd(2) by simp
    moreover have "(2::nat) ^ n * 2 ^ (24 - n) = 2 ^ 24"
      using True by (simp add: power_add [symmetric])
    ultimately have q2: "q < 16777216" by simp
    have u: "max (int (floorlog 2 m) + 0 - 24) (- 149) = int n - 24"
      by (simp add: n_def)
    have sel: "nat (0 - (int n - 24)) = 24 - n" by simp
    have "f32_round s m 0 = f32_pack s ((n + 125) * 8388608 + q)"
      unfolding f32_round_def Let_def u using m(1) True n1 q2
      by (simp add: sel q_def nat_diff_distrib nat_add_distrib add_ac)
    moreover have "126 \<le> n + 125" "n + 125 \<le> 158" using n1 True by simp_all
    ultimately show ?thesis using q1 q2 by blast
  next
    case False
    define k where "k = n - 24"
    define q0 where "q0 = round_shift m k"
    have k: "1 \<le> k" "k \<le> 8" "n = 24 + k" using False n32 by (simp_all add: k_def)
    have "(2::nat) ^ (n - 1) = 2 ^ 23 * 2 ^ k" using k(3) by (simp add: power_add)
    then have "2 ^ 23 * 2 ^ k \<le> m" using bnd(1) by simp
    then have d1: "2 ^ 23 \<le> m div 2 ^ k"
      by (simp add: less_eq_div_iff_mult_less_eq)
    have "(2::nat) ^ n = 2 ^ 24 * 2 ^ k" using k(3) by (simp add: power_add)
    then have "m < 2 ^ 24 * 2 ^ k" using bnd(2) by simp
    then have d2: "m div 2 ^ k < 2 ^ 24" by (simp add: less_mult_imp_div_less)
    have q0: "8388608 \<le> q0" "q0 \<le> 16777216"
      using round_shift_bounds [of m k] d1 d2 by (simp_all add: q0_def)
    have u: "max (int (floorlog 2 m) + 0 - 24) (- 149) = int k"
      using k by (simp add: n_def [symmetric])
    have r: "f32_round s m 0 = f32_pack s ((k + 149) * 8388608 + q0)"
      unfolding f32_round_def Let_def u using m(1) k q0
      by (simp add: q0_def nat_add_distrib add_ac)
    show ?thesis
    proof (cases "q0 = 16777216")
      case True
      have "(k + 149) * 8388608 + q0 = (k + 150) * 8388608 + 8388608"
        by (simp add: True)
      with r have "f32_round s m 0 = f32_pack s ((k + 150) * 8388608 + 8388608)" by simp
      moreover have "126 \<le> k + 150" "k + 150 \<le> 158" using k by simp_all
      ultimately show ?thesis by (intro exI [of _ "k + 150"] exI [of _ "8388608"]) simp
    next
      case False
      then have "q0 < 16777216" using q0 by simp
      moreover have "126 \<le> k + 149" "k + 149 \<le> 158" using k by simp_all
      ultimately show ?thesis using r q0(1) by blast
    qed
  qed
qed

lemma f32_round_int_small:
  assumes m: "0 < m" "m < 16777216"
  shows "f32_round s m 0 = f32_pack s ((floorlog 2 m + 125) * 8388608 + m * 2 ^ (24 - floorlog 2 m))"
    and "8388608 \<le> m * 2 ^ (24 - floorlog 2 m)"
    and "m * 2 ^ (24 - floorlog 2 m) < 16777216"
    and "1 \<le> floorlog 2 m" and "floorlog 2 m \<le> 24"
proof -
  define n where "n = floorlog 2 m"
  have bnd: "2 ^ (n - 1) \<le> m" "m < 2 ^ n"
    using floorlog_bounds [of m 2] m(1) by (simp_all add: n_def)
  have "floorlog 2 m \<noteq> 0" using m(1) by (simp add: floorlog_eq_zero_iff)
  then have n1: "1 \<le> n" by (simp add: n_def)
  have "floorlog 2 m \<le> 24" using m(2) by (simp add: floorlog_le_iff)
  then have n24: "n \<le> 24" by (simp add: n_def)
  define q where "q = m * 2 ^ (24 - n)"
  have "2 ^ (n - 1) * 2 ^ (24 - n) \<le> q" unfolding q_def using bnd(1) by simp
  moreover have "(2::nat) ^ (n - 1) * 2 ^ (24 - n) = 2 ^ 23"
    using n24 n1 by (simp add: power_add [symmetric])
  ultimately have q1: "8388608 \<le> q" by simp
  have "q < 2 ^ n * 2 ^ (24 - n)" unfolding q_def using bnd(2) by simp
  moreover have "(2::nat) ^ n * 2 ^ (24 - n) = 2 ^ 24"
    using n24 by (simp add: power_add [symmetric])
  ultimately have q2: "q < 16777216" by simp
  have u: "max (int (floorlog 2 m) + 0 - 24) (- 149) = int n - 24"
    by (simp add: n_def)
  have sel: "nat (0 - (int n - 24)) = 24 - n" by simp
  have "f32_round s m 0 = f32_pack s ((n + 125) * 8388608 + q)"
    unfolding f32_round_def Let_def u using m(1) n24 n1 q2
    by (simp add: sel q_def nat_diff_distrib nat_add_distrib add_ac)
  then show "f32_round s m 0 = f32_pack s ((floorlog 2 m + 125) * 8388608 + m * 2 ^ (24 - floorlog 2 m))"
    by (simp add: n_def q_def)
  show "8388608 \<le> m * 2 ^ (24 - floorlog 2 m)" using q1 by (simp add: n_def q_def)
  show "m * 2 ^ (24 - floorlog 2 m) < 16777216" using q2 by (simp add: n_def q_def)
  show "1 \<le> floorlog 2 m" using n1 by (simp add: n_def)
  show "floorlog 2 m \<le> 24" using n24 by (simp add: n_def)
qed

lemma f32_round_int_exact:
  assumes m: "0 < m" "m < 16777216"
  shows "f32_value (f32_round s m 0) = (if s then - 1 else 1) * of_nat m"
proof -
  define n where "n = floorlog 2 m"
  note r = f32_round_int_small [OF m, folded n_def]
  have E: "n + 125 < 254" using r(5) by simp
  have e: "int (n + 125) - 149 = - int (24 - n)" using r(5) by simp
  have p: "(2::rat) powi (int (n + 125) - 149) = inverse (2 ^ (24 - n))"
    unfolding e by (simp only: power_int_minus power_int_of_nat)
  have "f32_value (f32_round s m 0)
          = (if s then - 1 else 1) * of_nat (m * 2 ^ (24 - n)) * inverse (2 ^ (24 - n))"
    unfolding r(1) f32_value_normal [OF r(2,3) E] p ..
  then show ?thesis by simp
qed

lemma length_fold_update:
  "length (fold (\<lambda>x d. d[f x := v x]) xs d) = length d"
  by (induction xs arbitrary: d) simp_all

lemma nth_update_if:
  "xs[i := x] ! j = (if i = j \<and> i < length xs then x else xs ! j)"
  by (cases "i < length xs") (auto simp: nth_list_update list_update_beyond)

lemma nth_channel_loop:
  "fold (\<lambda>ch d. d[base + ch := g (base + ch)]) [0..<k] d ! j
     = (if base \<le> j \<and> j < base + k \<and> j < length d then g j else d ! j)"
proof (induction k)
  case 0
  show ?case by auto
next
  case (Suc k)
  show ?case
    by (auto simp: Suc nth_update_if length_fold_update)
qed

lemma length_frame_loop:
  "length (fold (\<lambda>frame. fold (\<lambda>ch d. d[f frame ch := v frame ch]) (cs frame)) fs d) = length d"
  by (induction fs arbitrary: d) (simp_all add: length_fold_update)

lemma nth_frame_loop:
  "fold (\<lambda>frame. fold (\<lambda>ch d. d[frame * channels + ch := g (frame * channels + ch)])
                       [0..<channels]) [0..<n] d ! j
     = (if j < n * channels \<and> j < length d then g j else d ! j)"
proof (induction n)
  case 0
  show ?case by simp
next
  case (Suc n)
  show ?case
    by (auto simp: Suc nth_channel_loop length_frame_loop)
qed

lemma convert_loop_plain:
  assumes "numFrames * channels < 2 ^ 32"
  shows "convert_loop conv src numFrames channels dest
           = fold (\<lambda>frame. fold (\<lambda>ch d. d[frame * channels + ch := conv src (frame * channels + ch)])
                       [0..<channels]) [0..<numFrames] dest"
proof -
  have idx: "sample_index frame channels ch = frame * channels + ch"
    if "frame < numFrames" "ch < channels" for frame ch
  proof -
    have "frame * channels + ch < Suc frame * channels" using that(2) by simp
    also have "\<dots> \<le> numFrames * channels" using that(1) by (simp add: Suc_leI mult_le_mono1 del: mult_Suc)
    finally show ?thesis using assms by (simp add: sample_index_def)
  qed
  show ?thesis
    unfolding convert_loop_def
    by (intro fold_cong refl ext) (simp_all add: idx)
qed

lemma convert_loop_nth:
  assumes "numFrames * channels < 2 ^ 32" "length dest = numFrames * channels"
  shows "length (convert_loop conv src numFrames channels dest) = length dest"
    and "j < numFrames * channels \<Longrightarrow>
           convert_loop conv src numFrames channels dest ! j = conv src j"
  using assms(2)
  by (simp_all add: convert_loop_plain [OF assms(1)] length_frame_loop nth_frame_loop)

lemma round_shift_error:
  "2 * (round_shift m k * 2 ^ k) \<le> 2 * m + 2 ^ k \<and>
   2 * m \<le> 2 * (round_shift m k * 2 ^ k) + 2 ^ k"
proof -
  define P :: nat where "P = 2 ^ k"
  define q where "q = m div P"
  define r where "r = m mod P"
  have m: "m = q * P + r" by (simp add: q_def r_def)
  have r: "r < P" by (simp add: r_def P_def)
  have rs: "round_shift m k = (if 2 * r > P \<or> (2 * r = P \<and> odd q) then q + 1 else q)"
    by (simp add: round_shift_def Let_def q_def r_def P_def)
  have "2 * (round_shift m k * P) \<le> 2 * (q * P + r) + P \<and>
        2 * (q * P + r) \<le> 2 * (round_shift m k * P) + P"
    using r by (auto simp: rs algebra_simps)
  then show ?thesis using m by (simp add: P_def)
qed

lemma f32_round_int_large:
  assumes m: "16777216 \<le> m" "m \<le> 2147483648"
  shows "\<exists>E q. 149 \<le> E \<and> E \<le> 158 \<and> 8388608 \<le> q \<and> q < 16777216 \<and>
           f32_round s m 0 = f32_pack s (E * 8388608 + q) \<and>
           q * 2 ^ (E - 149) = round_shift m (floorlog 2 m - 24) * 2 ^ (floorlog 2 m - 24) \<and>
           floorlog 2 m - 24 \<le> 8"
proof -
  define n where "n = floorlog 2 m"
  have m0: "0 < m" using m(1) by simp
  have bnd: "2 ^ (n - 1) \<le> m" "m < 2 ^ n"
    using floorlog_bounds [of m 2] m0 by (simp_all add: n_def)
  have "floorlog 2 m \<le> 32" using m(2) by (simp add: floorlog_le_iff)
  then have n32: "n \<le> 32" by (simp add: n_def)
  have "25 \<le> floorlog 2 m" using m(1) by (intro floorlog_geI) simp_all
  then have n25: "25 \<le> n" by (simp add: n_def)
  define k where "k = n - 24"
  define q0 where "q0 = round_shift m k"
  have k: "1 \<le> k" "k \<le> 8" "n = 24 + k" using n25 n32 by (simp_all add: k_def)
  have "(2::nat) ^ (n - 1) = 2 ^ 23 * 2 ^ k" using k(3) by (simp add: power_add)
  then have "2 ^ 23 * 2 ^ k \<le> m" using bnd(1) by simp
  then have d1: "2 ^ 23 \<le> m div 2 ^ k"
    by (simp add: less_eq_div_iff_mult_less_eq)
  have "(2::nat) ^ n = 2 ^ 24 * 2 ^ k" using k(3) by (simp add: power_add)
  then have "m < 2 ^ 24 * 2 ^ k" using bnd(2) by simp
  then have d2: "m div 2 ^ k < 2 ^ 24" by (simp add: less_mult_imp_div_less)
  have q0: "8388608 \<le> q0" "q0 \<le> 16777216"
    using round_shift_bounds [of m k] d1 d2 by (simp_all add: q0_def)
  have u: "max (int (floorlog 2 m) + 0 - 24) (- 149) = int k"
    using k by (simp add: n_def [symmetric])
  have r: "f32_round s m 0 = f32_pack s ((k + 149) * 8388608 + q0)"
    unfolding f32_round_def Let_def u using m0 k q0
    by (simp add: q0_def nat_add_distrib add_ac)
  have kk: "floorlog 2 m - 24 = k" by (simp add: k_def n_def)
  show ?thesis
  proof (cases "q0 = 16777216")
    case True
    have "(k + 149) * 8388608 + q0 = (k + 150) * 8388608 + 8388608"
      by (simp add: True)
    with r have "f32_round s m 0 = f32_pack s ((k + 150) * 8388608 + 8388608)" by simp
    moreover have "149 \<le> k + 150" "k + 150 \<le> 158" using k by simp_all
    moreover have "8388608 * 2 ^ (k + 150 - 149) = q0 * (2::nat) ^ k" by (simp add: True)
    ultimately show ?thesis
      unfolding kk q0_def [symmetric] using k(2)
      by (intro exI [of _ "k + 150"] exI [of _ "8388608"]) simp
  next
    case False
    then have "q0 < 16777216" using q0 by simp
    moreover have "149 \<le> k + 149" "k + 149 \<le> 158" using k by simp_all
    moreover have "q0 * 2 ^ (k + 149 - 149) = q0 * (2::nat) ^ k" by simp
    ultimately show ?thesis
      unfolding kk q0_def [symmetric] using r q0(1) k(2)
      by (intro exI [of _ "k + 149"] exI [of _ q0]) simp
  qed
qed

lemma f32_of_int_zero: "f32_of_int 0 = 0"
  by (simp add: f32_of_int_def f32_round_def f32_pack_def f32_sign_bit_def)

lemma f32_mul_zero_scale: "f32_mul 0 scale_int16 = 0" "f32_mul 0 scale_int32 = 0"
  by (simp_all add: f32_mul_def f32_is_nan_def f32_is_inf_def f32_significand_def
      f32_exponent_def f32_fraction_def f32_sign_def f32_round_def f32_pack_def f32_sign_bit_def
      scale_int16_def scale_int32_def)

lemma f32_zero_values:
  "f32_value (f32_of_int 0) = 0"
  "f32_value (f32_mul (f32_of_int 0) scale_int16) = 0"
  "f32_value (f32_mul (f32_of_int 0) scale_int32) = 0"
  by (simp_all add: f32_of_int_zero f32_mul_zero_scale f32_value_zero)

lemma f32_of_int_exact:
  assumes "\<bar>i\<bar> < 16777216"
  shows "f32_value (f32_of_int i) = of_int i"
proof (cases "i = 0")
  case True
  then show ?thesis by (simp add: f32_zero_values)
next
  case False
  then have m: "0 < nat \<bar>i\<bar>" "nat \<bar>i\<bar> < 16777216" using assms by simp_all
  have "f32_value (f32_of_int i) = (if i < 0 then - 1 else 1) * of_nat (nat \<bar>i\<bar>)"
    unfolding f32_of_int_def by (rule f32_round_int_exact [OF m])
  also have "\<dots> = of_int i" by simp
  finally show ?thesis .
qed

lemma f32_of_int_scaled:
  assumes "\<bar>i\<bar> \<le> 2147483648"
  shows "f32_value (f32_mul (f32_of_int i) scale_int16) = f32_value (f32_of_int i) / 32768"
    and "f32_value (f32_mul (f32_of_int i) scale_int32) = f32_value (f32_of_int i) / 2147483648"
proof -
  have "f32_value (f32_mul (f32_of_int i) scale_int16) = f32_value (f32_of_int i) / 32768 \<and>
        f32_value (f32_mul (f32_of_int i) scale_int32) = f32_value (f32_of_int i) / 2147483648"
  proof (cases "i = 0")
    case True
    then show ?thesis by (simp add: f32_zero_values)
  next
    case False
    then have m: "0 < nat \<bar>i\<bar>" "nat \<bar>i\<bar> \<le> 2147483648" using assms by simp_all
    from f32_round_int_normal [OF m, of "i < 0"]
    obtain E q where E: "126 \<le> E" "E \<le> 158" and q: "8388608 \<le> q" "q < 16777216"
      and r: "f32_of_int i = f32_pack (i < 0) (E * 8388608 + q)"
      unfolding f32_of_int_def by blast
    have E2: "E < 254" using E(2) by simp
    show ?thesis
      unfolding r using f32_mul_scale_value [OF q E(1) E2] by simp
  qed
  then show "f32_value (f32_mul (f32_of_int i) scale_int16) = f32_value (f32_of_int i) / 32768"
    and "f32_value (f32_mul (f32_of_int i) scale_int32) = f32_value (f32_of_int i) / 2147483648"
    by simp_all
qed

lemma f32_of_int_error:
  assumes "\<bar>i\<bar> \<le> 2147483648"
  shows "\<bar>f32_value (f32_of_int i) - of_int i\<bar> \<le> 128"
proof (cases "\<bar>i\<bar> < 16777216")
  case True
  then show ?thesis by (simp add: f32_of_int_exact)
next
  case False
  define m where "m = nat \<bar>i\<bar>"
  have m: "16777216 \<le> m" "m \<le> 2147483648" using False assms by (simp_all add: m_def)
  define k where "k = floorlog 2 m - 24"
  define R where "R = round_shift m k * 2 ^ k"
  from f32_round_int_large [OF m, of "i < 0"]
  obtain E q where E: "149 \<le> E" "E \<le> 158" and q: "8388608 \<le> q" "q < 16777216"
    and r: "f32_of_int i = f32_pack (i < 0) (E * 8388608 + q)"
    and v: "q * 2 ^ (E - 149) = R" and k8: "k \<le> 8"
    unfolding f32_of_int_def m_def [symmetric] k_def [symmetric] R_def by blast
  have E2: "E < 254" using E(2) by simp
  have "int E - 149 = int (E - 149)" using E(1) by simp
  then have p: "(2::rat) powi (int E - 149) = 2 ^ (E - 149)"
    by (simp only: power_int_of_nat)
  have "f32_value (f32_of_int i) = (if i < 0 then - 1 else 1) * (of_nat q * 2 ^ (E - 149))"
    unfolding r f32_value_normal [OF q E2] p by simp
  also have "of_nat q * (2::rat) ^ (E - 149) = of_nat R"
    unfolding v [symmetric] by simp
  finally have val: "f32_value (f32_of_int i) = (if i < 0 then - 1 else 1) * of_nat R" .
  have "(2::nat) ^ k \<le> 2 ^ 8" using k8 by (intro power_increasing) simp_all
  then have e: "2 * R \<le> 2 * m + 256" "2 * m \<le> 2 * R + 256"
    using round_shift_error [of m k] by (simp_all add: R_def)
  have i: "of_int i = (if i < 0 then - 1 else 1) * (of_nat m :: rat)"
    by (simp add: m_def)
  have "\<bar>(of_nat R :: rat) - of_nat m\<bar> \<le> 128"
  proof -
    have "\<bar>int R - int m\<bar> \<le> 128" using e by linarith
    then have "\<bar>(of_int (int R - int m) :: rat)\<bar> \<le> of_int 128"
      by (simp only: of_int_abs [symmetric] of_int_le_iff)
    then show ?thesis by simp
  qed
  then show ?thesis unfolding val i by (auto simp: abs_if split: if_splits)
qed

section \<open>The Sample Converter: every output sample\<close>

lemma sample_index_less:
  assumes "frame < numFrames" "ch < channels"
  shows "frame * channels + ch < numFrames * (channels :: nat)"
proof -
  have "frame * channels + ch < Suc frame * channels" using assms(2) by simp
  also have "\<dots> \<le> numFrames * channels"
    using assms(1) by (simp add: Suc_leI mult_le_mono1 del: mult_Suc)
  finally show ?thesis .
qed

lemma convert_loop_map:
  assumes "numFrames * channels < 2 ^ 32" "length dest = numFrames * channels"
  shows "convert_loop conv src numFrames channels dest = map (conv src) [0..<numFrames * channels]"
  using assms by (intro nth_equalityI) (simp_all add: convert_loop_nth)

lemma copy_floats_map:
  "length dest = count \<Longrightarrow> copy_floats src count dest = map (load_float32 src) [0..<count]"
  by (simp add: copy_floats_def)

lemma convert_int16_value:
  "f32_value (convert_int16 src i) = of_int (sint (load_int16 src i)) / 32768"
proof -
  let ?s = "sint (load_int16 src i)"
  have "- (2 ^ (LENGTH(16) - 1)) \<le> ?s" "?s < 2 ^ (LENGTH(16) - 1)"
    by (rule sint_ge sint_lt)+
  then have b: "\<bar>?s\<bar> < 16777216" "\<bar>?s\<bar> \<le> 2147483648" by simp_all
  show ?thesis
    unfolding convert_int16_def f32_of_int_scaled(1) [OF b(2)] f32_of_int_exact [OF b(1)] ..
qed

lemma convert_int32_value:
  "f32_value (convert_int32 src i) = f32_value (f32_of_int (sint (load_int32 src i))) / 2147483648"
  "\<bar>sint (load_int32 src i)\<bar> < 16777216 \<Longrightarrow>
     f32_value (convert_int32 src i) = of_int (sint (load_int32 src i)) / 2147483648"
  "\<bar>f32_value (convert_int32 src i) - of_int (sint (load_int32 src i)) / 2147483648\<bar>
     \<le> 1 / 16777216"
proof -
  let ?s = "sint (load_int32 src i)"
  have "- (2 ^ (LENGTH(32) - 1)) \<le> ?s" "?s < 2 ^ (LENGTH(32) - 1)"
    by (rule sint_ge sint_lt)+
  then have b: "\<bar>?s\<bar> \<le> 2147483648" by simp
  show v: "f32_value (convert_int32 src i) = f32_value (f32_of_int ?s) / 2147483648"
    unfolding convert_int32_def by (rule f32_of_int_scaled(2) [OF b])
  show "f32_value (convert_int32 src i) = of_int ?s / 2147483648" if "\<bar>?s\<bar> < 16777216"
    unfolding v f32_of_int_exact [OF that] ..
  have "\<bar>f32_value (f32_of_int ?s) - of_int ?s\<bar> / 2147483648 \<le> 128 / 2147483648"
    using f32_of_int_error [OF b] by (simp add: divide_right_mono)
  moreover have "\<bar>f32_value (convert_int32 src i) - of_int ?s / 2147483648\<bar>
                   = \<bar>f32_value (f32_of_int ?s) - of_int ?s\<bar> / 2147483648"
    unfolding v by (simp add: diff_divide_distrib [symmetric])
  ultimately show "\<bar>f32_value (convert_int32 src i) - of_int ?s / 2147483648\<bar> \<le> 1 / 16777216"
    by simp
qed

text \<open>
  Claim C1, as the code has it. For a buffer of at least one frame whose samples are
  indexed without wrap-around, the converter returns a buffer of the same length in
  which the sample of frame \<open>frame\<close> and channel \<open>ch\<close> stands at
  \<open>frame * channels + ch\<close>, as in the source. For an IEEE float format it is the source
  sample bit for bit. For 16-bit PCM its value is the source sample divided by 32768,
  exactly. For 32-bit PCM its value is that of the source sample converted to a float,
  divided by 2147483648: this is the source sample divided by 2147483648 exactly when
  the sample's magnitude is below \<open>2 ^ 24\<close>, and within \<open>2 ^ - 24\<close> of it always.
\<close>

theorem convertToFloat32_samples:
  assumes "0 < numFrames" and "numFrames * unat (nChannels wfx) < 2 ^ 32"
    and "length dest = numFrames * unat (nChannels wfx)"
    and "frame < numFrames" and "ch < unat (nChannels wfx)"
    and "i = frame * unat (nChannels wfx) + ch"
  shows "\<exists>out. convertToFloat32 (Some wfx) (Some src) (Some dest) numFrames = Some out \<and>
           length out = numFrames * unat (nChannels wfx) \<and>
           (wFormatTag wfx = WAVE_FORMAT_IEEE_FLOAT \<longrightarrow> out ! i = load_float32 src i) \<and>
           (wFormatTag wfx = WAVE_FORMAT_PCM \<and> wBitsPerSample wfx = 16 \<longrightarrow>
              f32_value (out ! i) = of_int (sint (load_int16 src i)) / 32768) \<and>
           (wFormatTag wfx = WAVE_FORMAT_PCM \<and> wBitsPerSample wfx = 32 \<longrightarrow>
              f32_value (out ! i) = f32_value (f32_of_int (sint (load_int32 src i))) / 2147483648 \<and>
              (\<bar>sint (load_int32 src i)\<bar> < 16777216 \<longrightarrow>
                 f32_value (out ! i) = of_int (sint (load_int32 src i)) / 2147483648) \<and>
              \<bar>f32_value (out ! i) - of_int (sint (load_int32 src i)) / 2147483648\<bar>
                \<le> 1 / 16777216)"
proof -
  let ?n = "numFrames * unat (nChannels wfx)"
  let ?sel = "if wFormatTag wfx = WAVE_FORMAT_IEEE_FLOAT then load_float32
              else if wFormatTag wfx = WAVE_FORMAT_PCM \<and> wBitsPerSample wfx = 16 then convert_int16
              else if wFormatTag wfx = WAVE_FORMAT_PCM \<and> wBitsPerSample wfx = 32 then convert_int32
              else (\<lambda>src i. 0)"
  let ?out = "map (?sel src) [0..<?n]"
  have i: "i < ?n" unfolding assms(6) by (rule sample_index_less [OF assms(4,5)])
  have count: "?n mod 4294967296 = ?n" using assms(2) by simp
  note maps = convert_loop_map [OF assms(2,3)] copy_floats_map [OF assms(3)]
    fill_zero_all [OF assms(3)]
  have pf: "WAVE_FORMAT_PCM \<noteq> WAVE_FORMAT_IEEE_FLOAT"
    by (simp add: WAVE_FORMAT_PCM_def WAVE_FORMAT_IEEE_FLOAT_def)
  have r: "convertToFloat32 (Some wfx) (Some src) (Some dest) numFrames = Some ?out"
    using assms(1)
    by (simp add: convertToFloat32_def Let_def maps count map_replicate_trivial)
  have len: "length ?out = ?n" by simp
  have o: "?out ! i = ?sel src i" using i by simp
  have s32f: "?sel = load_float32" if "wFormatTag wfx = WAVE_FORMAT_IEEE_FLOAT"
    using that by simp
  have s16: "?sel = convert_int16" if "wFormatTag wfx = WAVE_FORMAT_PCM \<and> wBitsPerSample wfx = 16"
    using that pf by simp
  have s32: "?sel = convert_int32" if "wFormatTag wfx = WAVE_FORMAT_PCM \<and> wBitsPerSample wfx = 32"
    using that pf by simp
  have oo: "?out ! i = X src i" if "?sel = X" for X
    using o unfolding that .
  have f: "?out ! i = load_float32 src i" if "wFormatTag wfx = WAVE_FORMAT_IEEE_FLOAT"
    by (rule oo [OF s32f [OF that]])
  have p16: "f32_value (?out ! i) = of_int (sint (load_int16 src i)) / 32768"
    if "wFormatTag wfx = WAVE_FORMAT_PCM \<and> wBitsPerSample wfx = 16"
    unfolding oo [OF s16 [OF that]] by (rule convert_int16_value)
  have p32: "f32_value (?out ! i) = f32_value (f32_of_int (sint (load_int32 src i))) / 2147483648 \<and>
             (\<bar>sint (load_int32 src i)\<bar> < 16777216 \<longrightarrow>
                f32_value (?out ! i) = of_int (sint (load_int32 src i)) / 2147483648) \<and>
             \<bar>f32_value (?out ! i) - of_int (sint (load_int32 src i)) / 2147483648\<bar>
               \<le> 1 / 16777216"
    if "wFormatTag wfx = WAVE_FORMAT_PCM \<and> wBitsPerSample wfx = 32"
    unfolding oo [OF s32 [OF that]]
    by (intro conjI impI convert_int32_value)
  show ?thesis
    using r len f p16 p32 by (intro exI [of _ ?out]) blast
qed

lemma upt_0_2: "[0..<2] = [0, 1]"
  by (simp add: numeral_2_eq_2)

lemma load_int16_extremes:
  "sint (load_int16 int16_extremes 0) = 32767" "sint (load_int16 int16_extremes 1) = - 32768"
  by (simp_all add: load_int16_def int16_extremes_def word_rcat_def)

lemma load_int32_unrepresentable:
  "sint (load_int32 int32_unrepresentable 0) = 2147483647"
  "sint (load_int32 int32_unrepresentable 1) = 16777217"
  by (simp_all add: load_int32_def int32_unrepresentable_def word_rcat_def)

lemmas f32_eval = f32_of_int_def f32_round_def Let_def compute_floorlog round_shift_def
  f32_pack_def f32_sign_bit_def f32_mul_def f32_is_nan_def f32_is_inf_def f32_significand_def
  f32_scale_def f32_exponent_def f32_fraction_def f32_sign_def f32_infinity_def
  f32_quiet_nan_def scale_int16_def scale_int32_def

lemma f32_int16_max: "f32_mul (f32_of_int 32767) scale_int16 = 0x3F7FFE00"
  by (simp add: f32_eval)

lemma f32_int16_min: "f32_mul (f32_of_int (- 32768)) scale_int16 = 0xBF800000"
  by (simp add: f32_eval)

lemma f32_int32_max: "f32_mul (f32_of_int 2147483647) scale_int32 = 0x3F800000"
  by (simp add: f32_eval)

lemma f32_int32_odd: "f32_mul (f32_of_int 16777217) scale_int32 = 0x3C000000"
  by (simp add: f32_eval)

lemma f32_value_one: "f32_value 0x3F800000 = 1"
  by (simp add: f32_eval f32_value_def power_int_def power_divide)

lemma f32_value_128th: "f32_value 0x3C000000 = 1 / 128"
  by (simp add: f32_eval f32_value_def power_int_def power_divide)

lemma load_float_one_and_nan:
  "load_float32 float_one_and_nan 0 = 0x3F800000" "load_float32 float_one_and_nan 1 = 0x7FC00001"
  by (simp_all add: load_float32_def load_int32_def float_one_and_nan_def word_rcat_def)

lemma load_int32_small:
  "sint (load_int32 int32_small 0) = 1" "sint (load_int32 int32_small 1) = - 1"
  by (simp_all add: load_int32_def int32_small_def word_rcat_def)

lemma stereo_format_fields:
  "unat (nChannels (stereo_format tag bits)) = 2" "wFormatTag (stereo_format tag bits) = tag"
  "wBitsPerSample (stereo_format tag bits) = bits"
  by (simp_all add: stereo_format_def)

theorem convertToFloat32_samples_witness:
  "(0::nat) < 1 \<and> 1 * unat (nChannels (stereo_format WAVE_FORMAT_PCM 16)) < 2 ^ 32 \<and>
   length [0, 0 :: float32] = 1 * unat (nChannels (stereo_format WAVE_FORMAT_PCM 16)) \<and>
   1 < unat (nChannels (stereo_format WAVE_FORMAT_PCM 16)) \<and>
   wFormatTag (stereo_format WAVE_FORMAT_PCM 16) = WAVE_FORMAT_PCM \<and>
   wBitsPerSample (stereo_format WAVE_FORMAT_PCM 16) = 16 \<and>
   sint (load_int16 int16_extremes 0) = 32767 \<and> sint (load_int16 int16_extremes 1) = - 32768 \<and>
   convertToFloat32 (Some (stereo_format WAVE_FORMAT_PCM 16)) (Some int16_extremes)
     (Some [0, 0]) 1 = Some [0x3F7FFE00, 0xBF800000] \<and>
   f32_value 0x3F7FFE00 = 32767 / 32768 \<and> f32_value 0xBF800000 = - 1 \<and>
   wFormatTag (stereo_format WAVE_FORMAT_IEEE_FLOAT 32) = WAVE_FORMAT_IEEE_FLOAT \<and>
   (\<exists>out. convertToFloat32 (Some (stereo_format WAVE_FORMAT_IEEE_FLOAT 32))
            (Some float_one_and_nan) (Some [0, 0]) 1 = Some out \<and>
          out ! 0 = 0x3F800000 \<and> out ! 1 = 0x7FC00001) \<and>
   wFormatTag (stereo_format WAVE_FORMAT_PCM 32) = WAVE_FORMAT_PCM \<and>
   wBitsPerSample (stereo_format WAVE_FORMAT_PCM 32) = 32 \<and>
   \<bar>sint (load_int32 int32_small 0)\<bar> < 16777216 \<and> \<bar>sint (load_int32 int32_small 1)\<bar> < 16777216 \<and>
   (\<exists>out. convertToFloat32 (Some (stereo_format WAVE_FORMAT_PCM 32))
            (Some int32_small) (Some [0, 0]) 1 = Some out \<and>
          f32_value (out ! 0) = 1 / 2147483648 \<and> f32_value (out ! 1) = - 1 / 2147483648)"
proof -
  let ?fmt = "stereo_format WAVE_FORMAT_PCM 16"
  have h: "(0::nat) < 1" "1 * unat (nChannels (stereo_format tag bits)) < 2 ^ 32"
    "length [0, 0 :: float32] = 1 * unat (nChannels (stereo_format tag bits))"
    "0 < unat (nChannels (stereo_format tag bits))" "1 < unat (nChannels (stereo_format tag bits))"
    "0 = 0 * unat (nChannels (stereo_format tag bits)) + 0"
    "1 = 0 * unat (nChannels (stereo_format tag bits)) + 1"
    "wFormatTag (stereo_format tag bits) = tag" "wBitsPerSample (stereo_format tag bits) = bits"
    for tag bits
    by (simp_all add: stereo_format_fields)
  have c: "convert_int16 int16_extremes 0 = 0x3F7FFE00"
    "convert_int16 int16_extremes 1 = 0xBF800000"
    unfolding convert_int16_def load_int16_extremes by (rule f32_int16_max f32_int16_min)+
  from c(2) have c': "convert_int16 int16_extremes (Suc 0) = 0xBF800000" by simp
  have "convert_loop convert_int16 int16_extremes (Suc 0) 2 [0, 0]
          = map (convert_int16 int16_extremes) [0..<Suc 0 * 2]"
    by (rule convert_loop_map) simp_all
  then have l: "convert_loop convert_int16 int16_extremes (Suc 0) 2 [0, 0]
                  = [0x3F7FFE00, 0xBF800000]"
    by (simp add: upt_0_2 c c')
  have r: "convertToFloat32 (Some ?fmt) (Some int16_extremes) (Some [0, 0]) 1
             = Some [0x3F7FFE00, 0xBF800000]"
    by (simp add: convertToFloat32_def stereo_format_fields Let_def l
        WAVE_FORMAT_PCM_def WAVE_FORMAT_IEEE_FLOAT_def)
  from convertToFloat32_samples [OF h(1,2,3,1,4,6), of WAVE_FORMAT_PCM 16 int16_extremes]
    convertToFloat32_samples [OF h(1,2,3,1,5,7), of WAVE_FORMAT_PCM 16 int16_extremes]
  have "f32_value ([0x3F7FFE00, 0xBF800000] ! 0) = of_int (sint (load_int16 int16_extremes 0)) / 32768 \<and>
        f32_value ([0x3F7FFE00, 0xBF800000] ! 1) = of_int (sint (load_int16 int16_extremes 1)) / 32768"
    unfolding r h(8,9) by force
  then have p16: "f32_value 0x3F7FFE00 = 32767 / 32768 \<and> f32_value 0xBF800000 = - 1"
    unfolding load_int16_extremes by simp
  from convertToFloat32_samples [OF h(1,2,3,1,4,6), of WAVE_FORMAT_IEEE_FLOAT 32 float_one_and_nan]
    convertToFloat32_samples [OF h(1,2,3,1,5,7), of WAVE_FORMAT_IEEE_FLOAT 32 float_one_and_nan]
  have pf: "\<exists>out. convertToFloat32 (Some (stereo_format WAVE_FORMAT_IEEE_FLOAT 32))
                   (Some float_one_and_nan) (Some [0, 0]) 1 = Some out \<and>
                 out ! 0 = 0x3F800000 \<and> out ! 1 = 0x7FC00001"
    unfolding h(8,9) load_float_one_and_nan by force
  have small: "\<bar>sint (load_int32 int32_small 0)\<bar> < 16777216"
    "\<bar>sint (load_int32 int32_small 1)\<bar> < 16777216"
    using load_int32_small by simp_all
  from convertToFloat32_samples [OF h(1,2,3,1,4,6), of WAVE_FORMAT_PCM 32 int32_small]
    convertToFloat32_samples [OF h(1,2,3,1,5,7), of WAVE_FORMAT_PCM 32 int32_small] small
  have "\<exists>out. convertToFloat32 (Some (stereo_format WAVE_FORMAT_PCM 32))
               (Some int32_small) (Some [0, 0]) 1 = Some out \<and>
             f32_value (out ! 0) = of_int (sint (load_int32 int32_small 0)) / 2147483648 \<and>
             f32_value (out ! 1) = of_int (sint (load_int32 int32_small 1)) / 2147483648"
    unfolding h(8,9) by force
  then have p32: "\<exists>out. convertToFloat32 (Some (stereo_format WAVE_FORMAT_PCM 32))
               (Some int32_small) (Some [0, 0]) 1 = Some out \<and>
             f32_value (out ! 0) = 1 / 2147483648 \<and> f32_value (out ! 1) = - 1 / 2147483648"
    unfolding load_int32_small by simp
  show ?thesis
    using h(1) h(2,3,5,8,9) [of WAVE_FORMAT_PCM 16] h(8,9) [of WAVE_FORMAT_IEEE_FLOAT 32]
      h(8,9) [of WAVE_FORMAT_PCM 32] r load_int16_extremes p16 pf small p32
    by (intro conjI) simp_all
qed

text \<open>
  The claim as stated fails for 32-bit PCM: the samples 2147483647 and 16777217 convert
  to the floats 1 and \<open>2 ^ - 7\<close>, not to their quotients by 2147483648.
\<close>

theorem int32_scaling_counterexample:
  "convertToFloat32 (Some (stereo_format WAVE_FORMAT_PCM 32)) (Some int32_unrepresentable)
     (Some [0, 0]) 1 = Some [0x3F800000, 0x3C000000] \<and>
   sint (load_int32 int32_unrepresentable 0) = 2147483647 \<and>
   sint (load_int32 int32_unrepresentable 1) = 16777217 \<and>
   f32_value 0x3F800000 = 1 \<and> f32_value 0x3C000000 = 16777216 / 2147483648 \<and>
   f32_value 0x3F800000 \<noteq> 2147483647 / 2147483648 \<and>
   f32_value 0x3C000000 \<noteq> 16777217 / 2147483648"
proof -
  let ?fmt = "stereo_format WAVE_FORMAT_PCM 32"
  have c: "convert_int32 int32_unrepresentable 0 = 0x3F800000"
    "convert_int32 int32_unrepresentable 1 = 0x3C000000"
    unfolding convert_int32_def load_int32_unrepresentable by (rule f32_int32_max f32_int32_odd)+
  from c(2) have c': "convert_int32 int32_unrepresentable (Suc 0) = 0x3C000000" by simp
  have "convert_loop convert_int32 int32_unrepresentable (Suc 0) 2 [0, 0]
          = map (convert_int32 int32_unrepresentable) [0..<Suc 0 * 2]"
    by (rule convert_loop_map) simp_all
  then have l: "convert_loop convert_int32 int32_unrepresentable (Suc 0) 2 [0, 0]
                  = [0x3F800000, 0x3C000000]"
    by (simp add: upt_0_2 c c')
  have "convertToFloat32 (Some ?fmt) (Some int32_unrepresentable) (Some [0, 0]) 1
          = Some [0x3F800000, 0x3C000000]"
    by (simp add: convertToFloat32_def stereo_format_fields Let_def l
        WAVE_FORMAT_PCM_def WAVE_FORMAT_IEEE_FLOAT_def)
  then show ?thesis
    using load_int32_unrepresentable f32_value_one f32_value_128th by simp
qed

end
